theory Spec2Isabelle
  imports Complex_Main
begin

chapter \<open>The model\<close>

section \<open>Numbers\<close>

text \<open>
  The simulation computes with JavaScript numbers. For the statements about bounds, control
  flow and convergence they are modelled as real numbers: rounding is not modelled there,
  so those statements are about the arithmetic the code writes down, carried out exactly.
  The statements about the exact position that the collision resolver returns are made on a
  second model of the resolver, in binary64 with rounding (sections ``Binary64 arithmetic''
  and ``Collision resolver in binary64''). A JavaScript division by zero yields an infinity
  or NaN, which is no real number; \<open>js_div\<close> returns \<open>None\<close> there, and every function that
  divides by a computed quantity returns an option.
\<close>

definition js_div :: "real \<Rightarrow> real \<Rightarrow> real option" where
  "js_div a b = (if b = 0 then None else Some (a / b))"

section \<open>Physics parameters (\<open>PHYSICS\<close>, \<open>ROBOT_RADIUS\<close>, \<open>COLLISION_PADDING\<close>)\<close>

definition maxSpeed :: real where "maxSpeed = 2.2"
definition acceleration :: real where "acceleration = 4.0"
definition deceleration :: real where "deceleration = 5.0"
definition friction :: real where "friction = 3.0"
definition maxTurnSpeed :: real where "maxTurnSpeed = 2.2"
definition turnAccel :: real where "turnAccel = 6.0"
definition turnFriction :: real where "turnFriction = 8.0"
definition headTurnSpeed :: real where "headTurnSpeed = 2.5"
definition headFriction :: real where "headFriction = 6.0"
definition headMaxRotation :: real where "headMaxRotation = 1.2"
definition tiltAmount :: real where "tiltAmount = 0.08"
definition leanAmount :: real where "leanAmount = 0.06"
definition tiltSmoothing :: real where "tiltSmoothing = 8.0"
definition leanSmoothing :: real where "leanSmoothing = 10.0"
definition suspensionStiffness :: real where "suspensionStiffness = 80.0"
definition suspensionDamping :: real where "suspensionDamping = 8.0"
definition bumpForce :: real where "bumpForce = 0.015"
definition wheelRadius :: real where "wheelRadius = 0.3"

definition ROBOT_RADIUS :: real where "ROBOT_RADIUS = 0.5"
definition COLLISION_PADDING :: real where "COLLISION_PADDING = 0.1"

section \<open>Obstacle registry\<close>

text \<open>
  An entry of \<open>collidableObjects\<close>: \<open>{mesh?, type, radius?, x?, z?}\<close>. Of the mesh only
  the planar position \<open>(position.x, position.z)\<close> is read. A field that is absent in the
  source is \<open>None\<close>.
\<close>

record collidable =
  obj_mesh :: "(real \<times> real) option"
  obj_type :: string
  obj_radius :: "real option"
  obj_x :: "real option"
  obj_z :: "real option"

text \<open>The accumulators of the object pass, which are also its result \<open>{x, z, collision}\<close>.\<close>

record collision_result =
  resultX :: real
  resultZ :: real
  collision :: bool

section \<open>Collision resolver\<close>

text \<open>\<open>checkWallCollision\<close>: the clamp into the arena, returned as the pair \<open>(x, z)\<close>.\<close>

definition checkWallCollision :: "real \<Rightarrow> real \<Rightarrow> real \<times> real" where
  "checkWallCollision newX newZ =
    (let r = ROBOT_RADIUS + COLLISION_PADDING;
         minX = - 9 + r;
         maxX = 9 - r;
         minZ = - 9 + r;
         maxZ = 10
     in (max minX (min maxX newX), max minZ (min maxZ newZ)))"

text \<open>
  The three per-obstacle reads of the loop body: \<open>obj.x !== undefined ? obj.x :
  (obj.mesh ? obj.mesh.position.x : 0)\<close>, the same for \<open>z\<close>, and \<open>obj.radius || 0.5\<close>
  (a radius that is absent or zero is falsy).
\<close>

definition objX :: "collidable \<Rightarrow> real" where
  "objX obj = (case obj_x obj of Some v \<Rightarrow> v
     | None \<Rightarrow> (case obj_mesh obj of Some p \<Rightarrow> fst p | None \<Rightarrow> 0))"

definition objZ :: "collidable \<Rightarrow> real" where
  "objZ obj = (case obj_z obj of Some v \<Rightarrow> v
     | None \<Rightarrow> (case obj_mesh obj of Some p \<Rightarrow> snd p | None \<Rightarrow> 0))"

definition objR :: "collidable \<Rightarrow> real" where
  "objR obj = (case obj_radius obj of Some v \<Rightarrow> (if v = 0 then 0.5 else v) | None \<Rightarrow> 0.5)"

text \<open>\<open>distance\<close> and \<open>minDist\<close> of the loop body, for the proposed point and one obstacle.\<close>

definition distance :: "real \<Rightarrow> real \<Rightarrow> collidable \<Rightarrow> real" where
  "distance newX newZ obj =
    (let dx = newX - objX obj; dz = newZ - objZ obj in sqrt (dx * dx + dz * dz))"

definition minDist :: "collidable \<Rightarrow> real" where
  "minDist obj = (ROBOT_RADIUS + COLLISION_PADDING) + objR obj"

text \<open>
  One iteration of the loop of \<open>checkObjectCollision\<close> on the accumulators. The distances
  are taken from the proposed point \<open>(newX, newZ)\<close>, the push is added to the accumulators.
\<close>

definition collisionBody ::
  "real \<Rightarrow> real \<Rightarrow> collidable \<Rightarrow> collision_result \<Rightarrow> collision_result option" where
  "collisionBody newX newZ obj acc =
    (if obj_type obj = ''wall'' then Some acc
     else
       let dx = newX - objX obj;
           dz = newZ - objZ obj
       in if distance newX newZ obj < minDist obj \<and> distance newX newZ obj > 0.001 then
            let pushDist = minDist obj - distance newX newZ obj in
            case js_div dx (distance newX newZ obj) of
              None \<Rightarrow> None
            | Some normalX \<Rightarrow>
               (case js_div dz (distance newX newZ obj) of
                  None \<Rightarrow> None
                | Some normalZ \<Rightarrow>
                    Some \<lparr>resultX = resultX acc + normalX * pushDist,
                          resultZ = resultZ acc + normalZ * pushDist,
                          collision = True\<rparr>)
          else Some acc)"

fun collisionLoop ::
  "real \<Rightarrow> real \<Rightarrow> collidable list \<Rightarrow> collision_result \<Rightarrow> collision_result option" where
  "collisionLoop newX newZ [] acc = Some acc"
| "collisionLoop newX newZ (obj # objs) acc =
    (case collisionBody newX newZ obj acc of
       None \<Rightarrow> None
     | Some acc' \<Rightarrow> collisionLoop newX newZ objs acc')"

text \<open>
  \<open>checkObjectCollision\<close>; the first argument is \<open>sceneRef.current\<close>'s obstacle list, \<open>None\<close>
  while the scene is not set up.
\<close>

definition checkObjectCollision ::
  "collidable list option \<Rightarrow> real \<Rightarrow> real \<Rightarrow> collision_result option" where
  "checkObjectCollision sceneRef newX newZ =
    (case sceneRef of
       None \<Rightarrow> Some \<lparr>resultX = newX, resultZ = newZ, collision = False\<rparr>
     | Some collidableObjects \<Rightarrow>
         collisionLoop newX newZ collidableObjects
           \<lparr>resultX = newX, resultZ = newZ, collision = False\<rparr>)"

definition resolveCollisions ::
  "collidable list option \<Rightarrow> real \<Rightarrow> real \<Rightarrow> collision_result option" where
  "resolveCollisions sceneRef newX newZ =
    (case checkObjectCollision sceneRef newX newZ of
       None \<Rightarrow> None
     | Some objResult \<Rightarrow>
         let wallResult = checkWallCollision (resultX objResult) (resultZ objResult);
             wallCollision =
               (fst wallResult \<noteq> resultX objResult \<or> snd wallResult \<noteq> resultZ objResult)
         in Some \<lparr>resultX = fst wallResult, resultZ = snd wallResult,
                  collision = (collision objResult \<or> wallCollision)\<rparr>)"

section \<open>Binary64 arithmetic\<close>

text \<open>
  Where a claim is about the exact value of a computed number, the arithmetic is modelled
  as the code performs it: in IEEE 754 binary64, rounding to nearest with ties to even. A
  finite binary64 number is modelled by the real number it denotes. \<open>round64\<close> maps a real
  number to the nearest binary64 number: the grid has spacing \<open>2^(e - 52)\<close> in the binade
  \<open>[2^e, 2^(e + 1))\<close>, and \<open>2^(- 1074)\<close> below \<open>2^(- 1022)\<close>. Every arithmetic operation returns
  the rounded exact result, and a decimal literal denotes its rounded value; \<open>Math.sqrt\<close> is
  taken to be correctly rounded. Infinities, NaN and the sign of zero are not represented:
  a division by zero returns \<open>None\<close>, and a magnitude of \<open>2^1024\<close> or more (which the statements
  about this model exclude) is rounded as if the exponent had no upper bound.
\<close>

definition exponent64 :: "real \<Rightarrow> int" where
  "exponent64 x = max \<lfloor>log 2 \<bar>x\<bar>\<rfloor> (- 1022)"

definition ulp64 :: "real \<Rightarrow> real" where
  "ulp64 x = 2 powr (of_int (exponent64 x - 52))"

definition roundEven :: "real \<Rightarrow> int" where
  "roundEven q =
    (let f = \<lfloor>q\<rfloor> in
     if q - of_int f < 1 / 2 then f
     else if q - of_int f > 1 / 2 then f + 1
     else if even f then f else f + 1)"

definition round64 :: "real \<Rightarrow> real" where
  "round64 x = (if x = 0 then 0 else of_int (roundEven (x / ulp64 x)) * ulp64 x)"

definition fadd :: "real \<Rightarrow> real \<Rightarrow> real" where
  "fadd a b = round64 (a + b)"

definition fsub :: "real \<Rightarrow> real \<Rightarrow> real" where
  "fsub a b = round64 (a - b)"

definition fmul :: "real \<Rightarrow> real \<Rightarrow> real" where
  "fmul a b = round64 (a * b)"

definition fdiv :: "real \<Rightarrow> real \<Rightarrow> real option" where
  "fdiv a b = (if b = 0 then None else Some (round64 (a / b)))"

definition fsqrt :: "real \<Rightarrow> real" where
  "fsqrt a = round64 (sqrt a)"

section \<open>Collision resolver in binary64\<close>

text \<open>
  The functions of the collision resolver once more, with every operation rounded. The
  fields of an obstacle are read as they are (they hold binary64 numbers); \<open>robotR64\<close> is
  \<open>ROBOT_RADIUS + COLLISION_PADDING\<close>.
\<close>

definition robotR64 :: real where
  "robotR64 = fadd 0.5 (round64 0.1)"

definition checkWallCollision64 :: "real \<Rightarrow> real \<Rightarrow> real \<times> real" where
  "checkWallCollision64 newX newZ =
    (let r = robotR64;
         minX = fadd (- 9) r;
         maxX = fsub 9 r;
         minZ = fadd (- 9) r;
         maxZ = 10
     in (max minX (min maxX newX), max minZ (min maxZ newZ)))"

definition distance64 :: "real \<Rightarrow> real \<Rightarrow> collidable \<Rightarrow> real" where
  "distance64 newX newZ obj =
    (let dx = fsub newX (objX obj); dz = fsub newZ (objZ obj)
     in fsqrt (fadd (fmul dx dx) (fmul dz dz)))"

definition minDist64 :: "collidable \<Rightarrow> real" where
  "minDist64 obj = fadd robotR64 (objR obj)"

definition collisionBody64 ::
  "real \<Rightarrow> real \<Rightarrow> collidable \<Rightarrow> collision_result \<Rightarrow> collision_result option" where
  "collisionBody64 newX newZ obj acc =
    (if obj_type obj = ''wall'' then Some acc
     else
       let dx = fsub newX (objX obj);
           dz = fsub newZ (objZ obj)
       in if distance64 newX newZ obj < minDist64 obj
             \<and> distance64 newX newZ obj > round64 0.001 then
            let pushDist = fsub (minDist64 obj) (distance64 newX newZ obj) in
            case fdiv dx (distance64 newX newZ obj) of
              None \<Rightarrow> None
            | Some normalX \<Rightarrow>
               (case fdiv dz (distance64 newX newZ obj) of
                  None \<Rightarrow> None
                | Some normalZ \<Rightarrow>
                    Some \<lparr>resultX = fadd (resultX acc) (fmul normalX pushDist),
                          resultZ = fadd (resultZ acc) (fmul normalZ pushDist),
                          collision = True\<rparr>)
          else Some acc)"

fun collisionLoop64 ::
  "real \<Rightarrow> real \<Rightarrow> collidable list \<Rightarrow> collision_result \<Rightarrow> collision_result option" where
  "collisionLoop64 newX newZ [] acc = Some acc"
| "collisionLoop64 newX newZ (obj # objs) acc =
    (case collisionBody64 newX newZ obj acc of
       None \<Rightarrow> None
     | Some acc' \<Rightarrow> collisionLoop64 newX newZ objs acc')"

definition checkObjectCollision64 ::
  "collidable list option \<Rightarrow> real \<Rightarrow> real \<Rightarrow> collision_result option" where
  "checkObjectCollision64 sceneRef newX newZ =
    (case sceneRef of
       None \<Rightarrow> Some \<lparr>resultX = newX, resultZ = newZ, collision = False\<rparr>
     | Some collidableObjects \<Rightarrow>
         collisionLoop64 newX newZ collidableObjects
           \<lparr>resultX = newX, resultZ = newZ, collision = False\<rparr>)"

definition resolveCollisions64 ::
  "collidable list option \<Rightarrow> real \<Rightarrow> real \<Rightarrow> collision_result option" where
  "resolveCollisions64 sceneRef newX newZ =
    (case checkObjectCollision64 sceneRef newX newZ of
       None \<Rightarrow> None
     | Some objResult \<Rightarrow>
         let wallResult = checkWallCollision64 (resultX objResult) (resultZ objResult);
             wallCollision =
               (fst wallResult \<noteq> resultX objResult \<or> snd wallResult \<noteq> resultZ objResult)
         in Some \<lparr>resultX = fst wallResult, resultZ = snd wallResult,
                  collision = (collision objResult \<or> wallCollision)\<rparr>)"

section \<open>Robot state and input flags\<close>

text \<open>
  \<open>robotStateRef.current\<close> (its fields \<open>x\<close> and \<open>z\<close> are named \<open>pos_x\<close> and \<open>pos_z\<close>
  here) and \<open>actionsRef.current\<close>.
\<close>

record robot_state =
  pos_x :: real
  pos_z :: real
  rotation :: real
  velocity :: real
  angularVelocity :: real
  headRotY :: real
  headAngularVel :: real
  wheelRotation :: real
  bodyTilt :: real
  bodyLean :: real
  suspensionOffset :: real
  suspensionVelocity :: real

record actions =
  forward :: bool
  backward :: bool
  turnLeft :: bool
  turnRight :: bool
  headLeft :: bool
  headRight :: bool

section \<open>Motion integrator (\<open>updateMovement\<close>)\<close>

text \<open>
  The function is split along its blank lines; \<open>Math.sign\<close> is \<open>sgn\<close> and \<open>Math.abs\<close> is
  \<open>abs\<close>. In each \<open>target\<close> the second assignment overrides the first, as in the source.
  The divisions by \<open>P.maxSpeed\<close> and \<open>P.wheelRadius\<close> are by nonzero constants.
\<close>

definition targetVelocity :: "actions \<Rightarrow> real" where
  "targetVelocity a =
    (let t0 = 0;
         t1 = (if forward a then maxSpeed else t0);
         t2 = (if backward a then - maxSpeed * 0.6 else t1)
     in t2)"

text \<open>The new \<open>state.velocity\<close> of the first block, before collision handling.\<close>

definition stepVelocity :: "actions \<Rightarrow> real \<Rightarrow> real \<Rightarrow> real" where
  "stepVelocity a delta v =
    (if targetVelocity a \<noteq> 0 then
       let accel = (if targetVelocity a > v then acceleration else deceleration);
           v1 = v + sgn (targetVelocity a - v) * accel * delta
       in if \<bar>v1\<bar> > \<bar>targetVelocity a\<bar> then targetVelocity a else v1
     else if \<bar>v\<bar> > 0.01 then v - sgn v * friction * delta
     else 0)"

text \<open>\<open>targetAngularVel\<close> after the scaling by \<open>speedFactor\<close>; \<open>v\<close> is the new velocity.\<close>

definition targetAngularVel :: "actions \<Rightarrow> real \<Rightarrow> real" where
  "targetAngularVel a v =
    (let t0 = 0;
         t1 = (if turnLeft a then maxTurnSpeed else t0);
         t2 = (if turnRight a then - maxTurnSpeed else t1);
         speedFactor = 1.0 - \<bar>v\<bar> / maxSpeed * 0.3
     in t2 * speedFactor)"

definition stepAngularVelocity :: "actions \<Rightarrow> real \<Rightarrow> real \<Rightarrow> real \<Rightarrow> real" where
  "stepAngularVelocity a delta v w =
    (if targetAngularVel a v \<noteq> 0 then w + (targetAngularVel a v - w) * turnAccel * delta
     else if \<bar>w\<bar> > 0.01 then w * (1 - turnFriction * delta)
     else 0)"

definition targetHeadVel :: "actions \<Rightarrow> real" where
  "targetHeadVel a =
    (let t0 = 0;
         t1 = (if headLeft a then headTurnSpeed else t0);
         t2 = (if headRight a then - headTurnSpeed else t1)
     in t2)"

definition stepHeadAngularVel :: "actions \<Rightarrow> real \<Rightarrow> real \<Rightarrow> real" where
  "stepHeadAngularVel a delta h =
    (if targetHeadVel a \<noteq> 0 then h + (targetHeadVel a - h) * headFriction * delta
     else h * (1 - headFriction * delta))"

text \<open>
  Everything after \<open>const resolved = resolveCollisions(proposedX, proposedZ)\<close>, through
  the suspension update. \<open>v1\<close>, \<open>w1\<close>, \<open>h1\<close>, \<open>headRot\<close>, \<open>rot\<close> and \<open>moveDistance\<close> are the values
  computed before the call. The writes to the scene graph and the \<open>onSpeedChange\<close> report
  that follow read the state and do not change it; they are left out.
\<close>

definition afterCollision ::
  "actions \<Rightarrow> real \<Rightarrow> robot_state \<Rightarrow> real \<Rightarrow> real \<Rightarrow> real \<Rightarrow> real \<Rightarrow> real \<Rightarrow> real
    \<Rightarrow> collision_result \<Rightarrow> robot_state" where
  "afterCollision a delta state v1 w1 h1 headRot rot moveDistance resolved =
    (let v2 = (if collision resolved then v1 * 0.5 else v1);
         sv1 = (if collision resolved then suspensionVelocity state - 0.02 * sgn v2
                else suspensionVelocity state);
         wheel = wheelRotation state + moveDistance / wheelRadius;
         accelerationForce = (targetVelocity a - v2) * 0.5;
         targetTilt = - accelerationForce * tiltAmount;
         tilt = bodyTilt state + (targetTilt - bodyTilt state) * tiltSmoothing * delta;
         targetLean = - w1 * leanAmount * max 0.3 (\<bar>v2\<bar> / maxSpeed);
         lean = bodyLean state + (targetLean - bodyLean state) * leanSmoothing * delta;
         velocityChange = \<bar>targetVelocity a - v2\<bar>;
         sv2 = (if velocityChange > 0.5 then sv1 - bumpForce * sgn (targetVelocity a - v2)
                else sv1);
         springForce = - suspensionOffset state * suspensionStiffness;
         dampingForce = - sv2 * suspensionDamping;
         sv3 = sv2 + (springForce + dampingForce) * delta;
         offset = suspensionOffset state + sv3 * delta
     in \<lparr>pos_x = resultX resolved, pos_z = resultZ resolved, rotation = rot,
         velocity = v2, angularVelocity = w1, headRotY = headRot, headAngularVel = h1,
         wheelRotation = wheel, bodyTilt = tilt, bodyLean = lean,
         suspensionOffset = offset, suspensionVelocity = sv3\<rparr>)"

definition updateMovement ::
  "collidable list option \<Rightarrow> actions \<Rightarrow> real \<Rightarrow> robot_state \<Rightarrow> robot_state option" where
  "updateMovement sceneRef a delta state =
    (let v1 = stepVelocity a delta (velocity state);
         w1 = stepAngularVelocity a delta v1 (angularVelocity state);
         h1 = stepHeadAngularVel a delta (headAngularVel state);
         headRot = max (- headMaxRotation) (min headMaxRotation (headRotY state + h1 * delta));
         rot = rotation state + w1 * delta;
         moveDistance = v1 * delta;
         proposedX = pos_x state + sin rot * moveDistance;
         proposedZ = pos_z state + cos rot * moveDistance
     in case resolveCollisions sceneRef proposedX proposedZ of
          None \<Rightarrow> None
        | Some resolved \<Rightarrow>
            Some (afterCollision a delta state v1 w1 h1 headRot rot moveDistance resolved))"


text \<open>
  The frame time of \<open>animate\<close>: \<open>Math.min((currentTime - lastTime) / 1000, 0.1)\<close>.
\<close>

definition frameDelta :: "real \<Rightarrow> real \<Rightarrow> real" where
  "frameDelta currentTime lastTime = min ((currentTime - lastTime) / 1000) 0.1"

text \<open>
  \<open>n\<close> frames of \<open>animate\<close> as far as the integrator is concerned: \<open>updateMovement\<close> called
  \<open>n\<close> times with the same frame time and unchanged input flags.
\<close>

fun runFrames ::
  "collidable list option \<Rightarrow> actions \<Rightarrow> real \<Rightarrow> nat \<Rightarrow> robot_state \<Rightarrow> robot_state option" where
  "runFrames sceneRef a delta 0 state = Some state"
| "runFrames sceneRef a delta (Suc n) state =
    (case updateMovement sceneRef a delta state of
       None \<Rightarrow> None
     | Some state' \<Rightarrow> runFrames sceneRef a delta n state')"

text \<open>The initial \<open>actionsRef.current\<close>: no flag set.\<close>

definition initialActions :: actions where
  "initialActions = \<lparr>forward = False, backward = False, turnLeft = False, turnRight = False,
     headLeft = False, headRight = False\<rparr>"

section \<open>The warehouse scene\<close>

text \<open>
  The entries pushed onto \<open>collidableObjects\<close> during scene construction, in order: three
  walls, four shelves, the work table, two crates, the security box, two barrels, the
  charging station and two cones.
\<close>

definition warehouse :: "collidable list" where
  "warehouse =
    [\<lparr>obj_mesh = Some (0, - 10), obj_type = ''wall'', obj_radius = None, obj_x = None, obj_z = None\<rparr>,
     \<lparr>obj_mesh = Some (- 10, 0), obj_type = ''wall'', obj_radius = None, obj_x = None, obj_z = None\<rparr>,
     \<lparr>obj_mesh = Some (10, 0), obj_type = ''wall'', obj_radius = None, obj_x = None, obj_z = None\<rparr>,
     \<lparr>obj_mesh = Some (- 0.9, - 0.25), obj_type = ''shelf'', obj_radius = Some 1.2, obj_x = Some (- 6), obj_z = Some (- 8)\<rparr>,
     \<lparr>obj_mesh = Some (- 0.9, - 0.25), obj_type = ''shelf'', obj_radius = Some 1.2, obj_x = Some (- 2), obj_z = Some (- 8)\<rparr>,
     \<lparr>obj_mesh = Some (- 0.9, - 0.25), obj_type = ''shelf'', obj_radius = Some 1.2, obj_x = Some 2, obj_z = Some (- 8)\<rparr>,
     \<lparr>obj_mesh = Some (- 0.9, - 0.25), obj_type = ''shelf'', obj_radius = Some 1.2, obj_x = Some 6, obj_z = Some (- 8)\<rparr>,
     \<lparr>obj_mesh = Some (0, 0), obj_type = ''table'', obj_radius = Some 1.3, obj_x = Some (- 7), obj_z = Some (- 3)\<rparr>,
     \<lparr>obj_mesh = Some (7, - 6), obj_type = ''box'', obj_radius = Some 0.6, obj_x = Some 7, obj_z = Some (- 6)\<rparr>,
     \<lparr>obj_mesh = Some (7.8, - 6), obj_type = ''box'', obj_radius = Some 0.6, obj_x = Some 7.8, obj_z = Some (- 6)\<rparr>,
     \<lparr>obj_mesh = Some (7, 4), obj_type = ''box'', obj_radius = Some 0.8, obj_x = Some 7, obj_z = Some 4\<rparr>,
     \<lparr>obj_mesh = Some (- 8, 2), obj_type = ''barrel'', obj_radius = Some 0.5, obj_x = Some (- 8), obj_z = Some 2\<rparr>,
     \<lparr>obj_mesh = Some (- 8.6, 2.5), obj_type = ''barrel'', obj_radius = Some 0.5, obj_x = Some (- 8.6), obj_z = Some 2.5\<rparr>,
     \<lparr>obj_mesh = Some (0, 0), obj_type = ''station'', obj_radius = Some 0.8, obj_x = Some 5, obj_z = Some 4\<rparr>,
     \<lparr>obj_mesh = None, obj_type = ''cone'', obj_radius = Some 0.3, obj_x = Some 3, obj_z = Some 2\<rparr>,
     \<lparr>obj_mesh = None, obj_type = ''cone'', obj_radius = Some 0.3, obj_x = Some 3.5, obj_z = Some 1.5\<rparr>]"

text \<open>
  \<open>clearOf newX newZ objs\<close>: no obstacle of the list is within reach of the point, that is,
  every entry is a wall or has \<open>minDist \<le> distance\<close>. It is written with squared distances
  so that it evaluates on decimal inputs.
\<close>

fun clearOf :: "real \<Rightarrow> real \<Rightarrow> collidable list \<Rightarrow> bool" where
  "clearOf newX newZ [] = True"
| "clearOf newX newZ (obj # objs) =
    ((obj_type obj = ''wall'' \<or> (0 \<le> minDist obj \<and> minDist obj * minDist obj \<le>
      (newX - objX obj) * (newX - objX obj) + (newZ - objZ obj) * (newZ - objZ obj)))
     \<and> clearOf newX newZ objs)"

section \<open>Auxiliary notions for coasting\<close>

text \<open>
  The states of a robot that coasts in the middle of the warehouse with its velocity
  alternating between \<open>3/128\<close> and \<open>- 3/128\<close>, heading along \<open>+z\<close>, while the head still turns
  and the suspension is not at rest.
\<close>

definition jitter :: "robot_state \<Rightarrow> bool" where
  "jitter s \<longleftrightarrow> pos_x s = 0 \<and> rotation s = 0 \<and> angularVelocity s = 0 \<and> 0 < headAngularVel s
     \<and> (suspensionVelocity s \<noteq> 0 \<or> suspensionOffset s \<noteq> 0)
     \<and> ((velocity s = 3 / 128 \<and> pos_z s = 0) \<or> (velocity s = - (3 / 128) \<and> pos_z s = - (3 / 8192)))"

text \<open>
  A quadratic form in the suspension's velocity and offset that one step of the
  spring-damper update at rest multiplies by exactly \<open>1 - 8 * delta\<close>.
\<close>

definition suspensionEnergy :: "real \<Rightarrow> robot_state \<Rightarrow> real" where
  "suspensionEnergy delta s =
    (1 - 8 * delta) * (suspensionVelocity s)\<^sup>2
    + 8 * (1 - 10 * delta) * suspensionVelocity s * suspensionOffset s
    + 80 * (suspensionOffset s)\<^sup>2"

section \<open>Auxiliary notions for the resolver\<close>





section \<open>Dust particles\<close>

text \<open>
  An entry of \<open>dustParticles\<close>: the mesh (its position, the radius of its sphere, its
  material's opacity and its scale), the velocity, \<open>life\<close> and \<open>maxLife\<close>. Opacity and scale
  are computed from \<open>life / maxLife\<close>; they are \<open>None\<close> when that division is by zero. The
  list of the scene's children, to which a particle's mesh is added and from which it is
  removed together with the particle, is not modelled.
\<close>

record dustParticle =
  mesh_position :: "real \<times> real \<times> real"
  mesh_radius :: real
  mesh_opacity :: "real option"
  mesh_scale :: "real option"
  p_velocity :: "real \<times> real \<times> real"
  life :: real
  maxLife :: real

text \<open>
  The particle list together with the number of calls of \<open>Math.random()\<close> made so far. The
  values that \<open>Math.random()\<close> returns are a parameter \<open>rnd\<close> of the functions below: its
  \<open>k\<close>-th call returns \<open>rnd k\<close>.
\<close>

record dust_state =
  dustParticles :: "dustParticle list"
  draws :: nat

definition spawnDustParticle ::
  "(nat \<Rightarrow> real) \<Rightarrow> real \<Rightarrow> real \<Rightarrow> real \<Rightarrow> real \<Rightarrow> real \<Rightarrow> dust_state \<Rightarrow> dust_state" where
  "spawnDustParticle rnd x y z velocityX velocityZ st =
    (if length (dustParticles st) \<ge> 50 then st
     else
       let k = draws st;
           size = 0.03 + rnd k * 0.04;
           particle =
             \<lparr>mesh_position = (x, y, z), mesh_radius = size, mesh_opacity = Some 0.6,
              mesh_scale = Some 1,
              p_velocity = (velocityX + (rnd (k + 1) - 0.5) * 0.3,
                            0.2 + rnd (k + 2) * 0.3,
                            velocityZ + (rnd (k + 3) - 0.5) * 0.3),
              life = 0,
              maxLife = 0.8 + rnd (k + 4) * 0.4\<rparr>
       in \<lparr>dustParticles = dustParticles st @ [particle], draws = k + 5\<rparr>)"

text \<open>The body of the particle loop up to the removal test, on one particle.\<close>

definition ageParticle :: "real \<Rightarrow> dustParticle \<Rightarrow> dustParticle" where
  "ageParticle delta p =
    (let life' = life p + delta;
         (px, py, pz) = mesh_position p;
         (vx, vy, vz) = p_velocity p;
         position' = (px + vx * delta, py + vy * delta, pz + vz * delta);
         vy' = vy - 0.5 * delta;
         velocity' = (vx * 0.98, vy' * 0.98, vz * 0.98);
         lifeRatio = js_div life' (maxLife p)
     in p\<lparr>life := life', mesh_position := position', p_velocity := velocity',
          mesh_opacity := map_option (\<lambda>r. 0.6 * (1 - r)) lifeRatio,
          mesh_scale := map_option (\<lambda>r. 1 + r * 0.5) lifeRatio\<rparr>)"

text \<open>
  The loop \<open>for (let i = dustParticles.length - 1; i >= 0; i--)\<close>: \<open>dustLoop delta n ps\<close>
  runs the iterations \<open>i = n - 1, \<dots>, 0\<close>. A particle whose life has reached \<open>maxLife\<close> is
  spliced out, any other is kept as updated.
\<close>

fun dustLoop :: "real \<Rightarrow> nat \<Rightarrow> dustParticle list \<Rightarrow> dustParticle list" where
  "dustLoop delta 0 ps = ps"
| "dustLoop delta (Suc i) ps =
    (let p = ageParticle delta (ps ! i)
     in if life p \<ge> maxLife p then dustLoop delta i (take i ps @ drop (Suc i) ps)
        else dustLoop delta i (ps[i := p]))"

text \<open>
  \<open>updateDustParticles\<close>; \<open>state\<close> is the robot state after \<open>updateMovement\<close>. The second
  conjunct of the spawn test is only evaluated, and a random number only drawn, when the
  first holds.
\<close>

definition updateDustParticles ::
  "(nat \<Rightarrow> real) \<Rightarrow> real \<Rightarrow> robot_state \<Rightarrow> dust_state \<Rightarrow> dust_state" where
  "updateDustParticles rnd delta state st =
    (let speed = \<bar>velocity state\<bar>;
         st1 =
          (if speed > 0.5 then
             (if rnd (draws st) < speed * 0.3 then
                let wheelOffsetX = 0.55;
                    wheelZ = cos (rotation state) * - 0.1;
                    wheelX = sin (rotation state) * - 0.1;
                    leftWheelX = pos_x state - cos (rotation state) * wheelOffsetX + wheelX;
                    leftWheelZ = pos_z state + sin (rotation state) * wheelOffsetX + wheelZ;
                    rightWheelX = pos_x state + cos (rotation state) * wheelOffsetX + wheelX;
                    rightWheelZ = pos_z state - sin (rotation state) * wheelOffsetX + wheelZ;
                    backVelX = - sin (rotation state) * speed * 0.5;
                    backVelZ = - cos (rotation state) * speed * 0.5
                in if rnd (draws st + 1) > 0.5 then
                     spawnDustParticle rnd leftWheelX 0.1 leftWheelZ backVelX backVelZ
                       (st\<lparr>draws := draws st + 2\<rparr>)
                   else
                     spawnDustParticle rnd rightWheelX 0.1 rightWheelZ backVelX backVelZ
                       (st\<lparr>draws := draws st + 2\<rparr>)
              else st\<lparr>draws := draws st + 1\<rparr>)
           else st)
     in st1\<lparr>dustParticles := dustLoop delta (length (dustParticles st1)) (dustParticles st1)\<rparr>)"

text \<open>
  The particle list at scene construction, and a run of frames: each frame brings its
  frame time and the robot state that \<open>updateMovement\<close> has left.
\<close>

definition initialDust :: dust_state where
  "initialDust = \<lparr>dustParticles = [], draws = 0\<rparr>"

fun runDust :: "(nat \<Rightarrow> real) \<Rightarrow> (real \<times> robot_state) list \<Rightarrow> dust_state \<Rightarrow> dust_state" where
  "runDust rnd [] st = st"
| "runDust rnd ((delta, state) # frames) st =
    runDust rnd frames (updateDustParticles rnd delta state st)"

section \<open>Camera capture\<close>

text \<open>
  Pixel buffers (\<open>Uint8Array\<close>, \<open>ImageData.data\<close>) map an index to a byte. A 2D context is
  its canvas's pixels together with the two attributes the capture sets. A camera is its
  position and the point it looks at.
\<close>

type_synonym bytes = "nat \<Rightarrow> nat"

datatype fill_style =
  Color string
| RadialGradient real real real real real real "(real \<times> string) list"

record context2d =
  pixels :: bytes
  globalCompositeOperation :: string
  fillStyle :: fill_style

record camera =
  cam_position :: "real \<times> real \<times> real"
  cam_lookAt :: "real \<times> real \<times> real"

text \<open>
  What the capture routines read and write. \<open>povCtx\<close> and \<open>secCamCtx\<close> are \<open>None\<close> when the
  display canvas was not found at set-up, \<open>povImageData\<close> and \<open>secCamImageData\<close> when no
  image buffer could be created from it.
\<close>

record capture_state =
  povCtx :: "context2d option"
  povImageData :: "bytes option"
  povBuffer :: bytes
  robotCameraRT :: bytes
  robotCamera :: camera
  secCamCtx :: "context2d option"
  secCamImageData :: "bytes option"
  secCamBuffer :: bytes
  securityCameraRT :: bytes
  securityCamera :: camera
  secCamMount_position :: "real \<times> real \<times> real"
  secCamMount_rotation_y :: real
  robot_visible :: bool
  lastPovRenderTime :: real

text \<open>
  The rendering library and the canvas are outside the repository. They enter as two
  functions: \<open>render cam visible\<close> is the image of the scene that \<open>renderer.render\<close> leaves in
  the render target for camera \<open>cam\<close>, with the robot shown or hidden; \<open>fillRect ctx x y w h\<close>
  is the pixels of the canvas after \<open>ctx.fillRect(x, y, w, h)\<close> under the context's
  current fill style and composite operation. The scene graph enters as the world
  positions the routines read from it.
\<close>

record backend =
  render :: "camera \<Rightarrow> bool \<Rightarrow> bytes"
  fillRect :: "context2d \<Rightarrow> real \<Rightarrow> real \<Rightarrow> real \<Rightarrow> real \<Rightarrow> bytes"

record scene_pose =
  robot_position :: "real \<times> real \<times> real"
  headWorldPos_y :: real

definition atan2 :: "real \<Rightarrow> real \<Rightarrow> real" where
  "atan2 y x = Arg (Complex x y)"

text \<open>
  The copy loop of both routines: rows are read bottom-up from the buffer
  (\<open>srcIdx = ((359 - y) * 640 + x) * 4\<close>) and written top-down.
\<close>

definition flipCopy :: "bytes \<Rightarrow> bytes \<Rightarrow> bytes" where
  "flipCopy buffer data =
    fold (\<lambda>y d.
      fold (\<lambda>x d.
        let srcIdx = ((359 - y) * 640 + x) * 4;
            dstIdx = (y * 640 + x) * 4
        in d(dstIdx := buffer srcIdx, dstIdx + 1 := buffer (srcIdx + 1),
             dstIdx + 2 := buffer (srcIdx + 2), dstIdx + 3 := buffer (srcIdx + 3)))
        [0..<640] d)
      [0..<360] data"

text \<open>The scanline loops \<open>for (let y = 0; y < 360; y += step) ctx.fillRect(0, y, 640, 1)\<close>.\<close>

definition scanlines :: "backend \<Rightarrow> nat \<Rightarrow> context2d \<Rightarrow> context2d" where
  "scanlines B step ctx =
    fold (\<lambda>y c. c\<lparr>pixels := fillRect B c 0 (real y) 640 1\<rparr>)
      (filter (\<lambda>y. y mod step = 0) [0..<360]) ctx"

definition renderRobotPOV ::
  "backend \<Rightarrow> scene_pose \<Rightarrow> robot_state \<Rightarrow> capture_state \<Rightarrow> capture_state" where
  "renderRobotPOV B pose state st =
    (case povCtx st of
       None \<Rightarrow> st
     | Some ctx \<Rightarrow>
        (case povImageData st of
           None \<Rightarrow> st
         | Some imageData \<Rightarrow>
            let (rx, ry, rz) = robot_position pose;
                camPos = (rx, headWorldPos_y pose + 0.35, rz);
                totalRotation = rotation state + headRotY state;
                lookTarget = (rx + sin totalRotation * 10, headWorldPos_y pose + 0.35 - 0.5,
                              rz + cos totalRotation * 10);
                cam = \<lparr>cam_position = camPos, cam_lookAt = lookTarget\<rparr>;
                target = render B cam False;
                imageData' = flipCopy target imageData;
                c1 = ctx\<lparr>pixels := imageData'\<rparr>;
                c2 = c1\<lparr>globalCompositeOperation := ''lighter'',
                         fillStyle := Color ''rgba(40, 40, 50, 0.3)''\<rparr>;
                c3 = c2\<lparr>pixels := fillRect B c2 0 0 640 360,
                         globalCompositeOperation := ''source-over''\<rparr>;
                c4 = scanlines B 3 (c3\<lparr>fillStyle := Color ''rgba(0, 0, 0, 0.015)''\<rparr>);
                c5 = c4\<lparr>fillStyle := RadialGradient 320 180 200 320 180 400
                           [(0, ''rgba(0,0,0,0)''), (1, ''rgba(0,0,0,0.15)'')]\<rparr>;
                c6 = c5\<lparr>pixels := fillRect B c5 0 0 640 360\<rparr>
            in st\<lparr>robotCamera := cam, robot_visible := True, robotCameraRT := target,
                   povBuffer := target, povImageData := Some imageData',
                   povCtx := Some c6\<rparr>))"

definition renderSecurityCamera ::
  "backend \<Rightarrow> scene_pose \<Rightarrow> capture_state \<Rightarrow> capture_state" where
  "renderSecurityCamera B pose st =
    (case secCamCtx st of
       None \<Rightarrow> st
     | Some ctx \<Rightarrow>
        (case secCamImageData st of
           None \<Rightarrow> st
         | Some imageData \<Rightarrow>
            let (rx, ry, rz) = robot_position pose;
                (mx, my, mz) = secCamMount_position st;
                dx = rx - mx;
                dz = rz - mz;
                cam = \<lparr>cam_position = (mx, my + 0.7, mz), cam_lookAt = (rx, ry + 0.8, rz)\<rparr>;
                target = render B cam (robot_visible st);
                imageData' = flipCopy target imageData;
                c1 = ctx\<lparr>pixels := imageData'\<rparr>;
                c2 = c1\<lparr>globalCompositeOperation := ''multiply'',
                         fillStyle := Color ''rgba(255, 250, 230, 0.95)''\<rparr>;
                c3 = c2\<lparr>pixels := fillRect B c2 0 0 640 360,
                         globalCompositeOperation := ''source-over''\<rparr>;
                c4 = scanlines B 2 (c3\<lparr>fillStyle := Color ''rgba(0, 0, 0, 0.02)''\<rparr>);
                c5 = c4\<lparr>fillStyle := RadialGradient 320 180 180 320 180 380
                           [(0, ''rgba(0,0,0,0)''), (1, ''rgba(0,0,0,0.25)'')]\<rparr>;
                c6 = c5\<lparr>pixels := fillRect B c5 0 0 640 360\<rparr>
            in st\<lparr>secCamMount_rotation_y := atan2 dx dz, securityCamera := cam,
                   securityCameraRT := target, secCamBuffer := target,
                   secCamImageData := Some imageData', secCamCtx := Some c6\<rparr>))"

text \<open>
  The capture block of \<open>animate\<close>:
  \<open>if (currentTime - lastPovRenderTime > POV_RENDER_INTERVAL) { renderRobotPOV();
  renderSecurityCamera(); lastPovRenderTime = currentTime; }\<close>.
\<close>

definition POV_RENDER_INTERVAL :: real where "POV_RENDER_INTERVAL = 50"

definition captureBlock ::
  "backend \<Rightarrow> scene_pose \<Rightarrow> robot_state \<Rightarrow> real \<Rightarrow> capture_state \<Rightarrow> capture_state" where
  "captureBlock B pose state currentTime st =
    (if currentTime - lastPovRenderTime st > POV_RENDER_INTERVAL then
       (renderSecurityCamera B pose (renderRobotPOV B pose state st))
         \<lparr>lastPovRenderTime := currentTime\<rparr>
     else st)"

section \<open>Expression renderer (\<open>drawFaceLocal\<close>)\<close>

text \<open>
  The face is drawn through the 2D context of a canvas that is created once, at scene
  construction, with width 256 and height 160. The canvas is the browser's; of it the
  model keeps what decides the pixels: the drawing state (the attributes that
  \<open>drawFaceLocal\<close> assigns or that its painting calls read, with the stack of \<open>save\<close>), the
  current path, and the painting operations that make up the raster, each with the
  drawing state it was painted under. Rasterisation, and with it fonts and blur, is not
  modelled. A fill of the whole canvas with an opaque colour under the identity transform
  and full alpha replaces everything painted before.
\<close>

definition faceWidth :: real where "faceWidth = 256"
definition faceHeight :: real where "faceHeight = 160"

datatype transform_op = Translated real real | Rotated real

record drawing_state =
  d_fillStyle :: string
  d_strokeStyle :: string
  d_shadowColor :: string
  d_shadowBlur :: real
  d_lineWidth :: real
  d_lineCap :: string
  d_font :: string
  d_textAlign :: string
  d_textBaseline :: string
  d_globalAlpha :: real
  d_transform :: "transform_op list"

text \<open>The calls and assignments that \<open>drawFaceLocal\<close> makes on \<open>faceCtx\<close>.\<close>

datatype canvas_call =
  SetFillStyle string
| SetStrokeStyle string
| SetShadowColor string
| SetShadowBlur real
| SetLineWidth real
| SetLineCap string
| SetFont string
| SetTextAlign string
| SetTextBaseline string
| SetGlobalAlpha real
| FillRect real real real real
| FillText string real real
| BeginPath
| ClosePath
| MoveTo real real
| LineTo real real
| QuadraticCurveTo real real real real
| BezierCurveTo real real real real real real
| Arc real real real real real
| Ellipse real real real real real real real
| Fill
| Stroke
| Save
| Restore
| Translate real real
| Rotate real

datatype painted =
  PaintRect real real real real drawing_state
| PaintText string real real drawing_state
| PaintFill "(transform_op list \<times> canvas_call) list" drawing_state
| PaintStroke "(transform_op list \<times> canvas_call) list" drawing_state

record face_canvas =
  current :: drawing_state
  saved :: "drawing_state list"
  path :: "(transform_op list \<times> canvas_call) list"
  raster :: "painted list"
  needsUpdate :: bool

text \<open>The drawing state of a freshly created context, and the canvas at its creation.\<close>

definition defaultDrawingState :: drawing_state where
  "defaultDrawingState =
    \<lparr>d_fillStyle = ''#000000'', d_strokeStyle = ''#000000'',
     d_shadowColor = ''rgba(0, 0, 0, 0)'', d_shadowBlur = 0, d_lineWidth = 1,
     d_lineCap = ''butt'', d_font = ''10px sans-serif'', d_textAlign = ''start'',
     d_textBaseline = ''alphabetic'', d_globalAlpha = 1, d_transform = []\<rparr>"

definition newFaceCanvas :: face_canvas where
  "newFaceCanvas =
    \<lparr>current = defaultDrawingState, saved = [], path = [], raster = [], needsUpdate = False\<rparr>"

text \<open>A colour written \<open>#rrggbb\<close> has no alpha channel.\<close>

definition opaque :: "string \<Rightarrow> bool" where
  "opaque style \<longleftrightarrow> length style = 7 \<and> hd style = CHR ''#''"

text \<open>
  The effect of one call. An assignment to \<open>globalAlpha\<close> outside \<open>[0, 1]\<close> is ignored by the
  canvas; the other assignments of \<open>drawFaceLocal\<close> are always of valid values.
\<close>

fun exec_call :: "canvas_call \<Rightarrow> face_canvas \<Rightarrow> face_canvas" where
  "exec_call (SetFillStyle v) c = c\<lparr>current := (current c)\<lparr>d_fillStyle := v\<rparr>\<rparr>"
| "exec_call (SetStrokeStyle v) c = c\<lparr>current := (current c)\<lparr>d_strokeStyle := v\<rparr>\<rparr>"
| "exec_call (SetShadowColor v) c = c\<lparr>current := (current c)\<lparr>d_shadowColor := v\<rparr>\<rparr>"
| "exec_call (SetShadowBlur v) c = c\<lparr>current := (current c)\<lparr>d_shadowBlur := v\<rparr>\<rparr>"
| "exec_call (SetLineWidth v) c = c\<lparr>current := (current c)\<lparr>d_lineWidth := v\<rparr>\<rparr>"
| "exec_call (SetLineCap v) c = c\<lparr>current := (current c)\<lparr>d_lineCap := v\<rparr>\<rparr>"
| "exec_call (SetFont v) c = c\<lparr>current := (current c)\<lparr>d_font := v\<rparr>\<rparr>"
| "exec_call (SetTextAlign v) c = c\<lparr>current := (current c)\<lparr>d_textAlign := v\<rparr>\<rparr>"
| "exec_call (SetTextBaseline v) c = c\<lparr>current := (current c)\<lparr>d_textBaseline := v\<rparr>\<rparr>"
| "exec_call (SetGlobalAlpha v) c =
    (if 0 \<le> v \<and> v \<le> 1 then c\<lparr>current := (current c)\<lparr>d_globalAlpha := v\<rparr>\<rparr> else c)"
| "exec_call (FillRect x y w h) c =
    (if x = 0 \<and> y = 0 \<and> w = faceWidth \<and> h = faceHeight \<and> opaque (d_fillStyle (current c))
        \<and> d_globalAlpha (current c) = 1 \<and> d_transform (current c) = []
     then c\<lparr>raster := [PaintRect x y w h (current c)]\<rparr>
     else c\<lparr>raster := raster c @ [PaintRect x y w h (current c)]\<rparr>)"
| "exec_call (FillText t x y) c = c\<lparr>raster := raster c @ [PaintText t x y (current c)]\<rparr>"
| "exec_call BeginPath c = c\<lparr>path := []\<rparr>"
| "exec_call Fill c = c\<lparr>raster := raster c @ [PaintFill (path c) (current c)]\<rparr>"
| "exec_call Stroke c = c\<lparr>raster := raster c @ [PaintStroke (path c) (current c)]\<rparr>"
| "exec_call Save c = c\<lparr>saved := current c # saved c\<rparr>"
| "exec_call Restore c =
    (case saved c of [] \<Rightarrow> c | s # rest \<Rightarrow> c\<lparr>current := s, saved := rest\<rparr>)"
| "exec_call (Translate x y) c =
    c\<lparr>current := (current c)\<lparr>d_transform := d_transform (current c) @ [Translated x y]\<rparr>\<rparr>"
| "exec_call (Rotate a) c =
    c\<lparr>current := (current c)\<lparr>d_transform := d_transform (current c) @ [Rotated a]\<rparr>\<rparr>"
| "exec_call segment c = c\<lparr>path := path c @ [(d_transform (current c), segment)]\<rparr>"

text \<open>
  The JavaScript remainder \<open>x % 1\<close> (the sign of the result is that of \<open>x\<close>), and
  \<open>text.split(' ')\<close>.
\<close>

definition jsRemainder1 :: "real \<Rightarrow> real" where
  "jsRemainder1 x = (if 0 \<le> x then x - of_int \<lfloor>x\<rfloor> else x - of_int \<lceil>x\<rceil>)"

fun splitSpaces :: "string \<Rightarrow> string list" where
  "splitSpaces [] = [[]]"
| "splitSpaces (ch # rest) =
    (if ch = CHR '' '' then [] # splitSpaces rest
     else (case splitSpaces rest of
             [] \<Rightarrow> [[ch]]
           | word # others \<Rightarrow> (ch # word) # others))"

text \<open>
  The word wrap of the text branch. \<open>measureText s\<close> is \<open>faceCtx.measureText(s).width\<close> under the
  font \<open>bold 28px Inter, sans-serif\<close> that the branch has just set.
\<close>

definition wrapLines :: "(string \<Rightarrow> real) \<Rightarrow> string \<Rightarrow> string list" where
  "wrapLines measureText displayText =
    (let (lines, currentLine) =
       fold (\<lambda>word (lines, currentLine).
              let testLine = currentLine @ (if currentLine \<noteq> [] then '' '' else []) @ word
              in if measureText testLine > faceWidth - 40 then (lines @ [currentLine], word)
                 else (lines, testLine))
            (splitSpaces displayText) ([], [])
     in lines @ [currentLine])"

definition textCalls :: "(string \<Rightarrow> real) \<Rightarrow> string \<Rightarrow> canvas_call list" where
  "textCalls measureText displayText =
    [SetFont ''bold 28px Inter, sans-serif'', SetTextAlign ''center'', SetTextBaseline ''middle'']
    @ (let lines = wrapLines measureText displayText;
           lineHeight = 32;
           startY = faceHeight / 2 - (real (length lines) - 1) * lineHeight / 2
       in map (\<lambda>(i, line). FillText line (faceWidth / 2) (startY + real i * lineHeight))
            (enumerate 0 lines))"

text \<open>The local helpers \<open>drawHeart\<close> and \<open>drawStar\<close> (their parameter \<open>size\<close> is \<open>sz\<close> here).\<close>

definition drawHeart :: "real \<Rightarrow> real \<Rightarrow> real \<Rightarrow> canvas_call list" where
  "drawHeart cx cy sz =
    [BeginPath,
     MoveTo cx (cy + sz * 0.3),
     BezierCurveTo cx cy (cx - sz) cy (cx - sz) (cy + sz * 0.5),
     BezierCurveTo (cx - sz) (cy + sz) cx (cy + sz * 1.2) cx (cy + sz * 1.5),
     BezierCurveTo cx (cy + sz * 1.2) (cx + sz) (cy + sz) (cx + sz) (cy + sz * 0.5),
     BezierCurveTo (cx + sz) cy cx cy cx (cy + sz * 0.3),
     Fill]"

definition drawStar :: "real \<Rightarrow> real \<Rightarrow> real \<Rightarrow> canvas_call list" where
  "drawStar cx cy sz =
    [BeginPath]
    @ concat (map (\<lambda>i.
        let angle = (real i / 4) * pi * 2 - pi / 2;
            x = cx + cos angle * sz;
            y = cy + sin angle * sz;
            midAngle = angle + pi / 4;
            mx = cx + cos midAngle * sz * 0.4;
            my = cy + sin midAngle * sz * 0.4
        in [if i = 0 then MoveTo x y else LineTo x y, LineTo mx my]) [0..<4])
    @ [ClosePath, Fill]"

text \<open>
  The chain of \<open>if (currentExpression === \<dots>)\<close>; an expression that matches no branch draws
  nothing.
\<close>

definition expressionCalls :: "string \<Rightarrow> string \<Rightarrow> real \<Rightarrow> canvas_call list" where
  "expressionCalls currentExpression currentFaceColor time =
    (let w = faceWidth;
         h = faceHeight;
         eyeY = h * 0.42;
         eyeSpacing = w * 0.22;
         eyeWidth = 35;
         eyeHeight = 45;
         blinkCycle = sin (time * 0.003);
         blinkScale = (if blinkCycle > 0.95 then 0.1 else 1)
     in
     if currentExpression = ''neutral'' then
       [BeginPath, Ellipse (w / 2 - eyeSpacing) eyeY eyeWidth (eyeHeight * blinkScale) 0 0 (pi * 2), Fill,
        BeginPath, Ellipse (w / 2 + eyeSpacing) eyeY eyeWidth (eyeHeight * blinkScale) 0 0 (pi * 2), Fill,
        BeginPath, Arc (w / 2) (h * 0.72) 25 (0.1 * pi) (0.9 * pi), Stroke]
     else if currentExpression = ''happy'' then
       [SetLineWidth 8,
        BeginPath, Arc (w / 2 - eyeSpacing) (eyeY + 10) 28 pi (2 * pi), Stroke,
        BeginPath, Arc (w / 2 + eyeSpacing) (eyeY + 10) 28 pi (2 * pi), Stroke,
        SetLineWidth 4,
        BeginPath, Arc (w / 2) (h * 0.68) 35 (0.15 * pi) (0.85 * pi), Stroke]
     else if currentExpression = ''thinking'' then
       [BeginPath, Ellipse (w / 2 - eyeSpacing) eyeY eyeWidth (eyeHeight * blinkScale) 0 0 (pi * 2), Fill,
        BeginPath, Ellipse (w / 2 + eyeSpacing) (eyeY - 8) (eyeWidth * 0.9) (eyeHeight * 0.7) (- 0.2) 0 (pi * 2), Fill,
        BeginPath, MoveTo (w / 2 - 25) (h * 0.72),
        QuadraticCurveTo (w / 2) (h * 0.68) (w / 2 + 25) (h * 0.72), Stroke]
     else if currentExpression = ''surprised'' then
       [BeginPath, Arc (w / 2 - eyeSpacing) eyeY 32 0 (pi * 2), Fill,
        BeginPath, Arc (w / 2 + eyeSpacing) eyeY 32 0 (pi * 2), Fill,
        SetLineWidth 4,
        BeginPath, Arc (w / 2) (h * 0.72) 18 0 (pi * 2), Stroke]
     else if currentExpression = ''love'' then
       drawHeart (w / 2 - eyeSpacing) (eyeY - 25) 22
       @ drawHeart (w / 2 + eyeSpacing) (eyeY - 25) 22
       @ [BeginPath, Arc (w / 2) (h * 0.7) 30 (0.1 * pi) (0.9 * pi), Stroke]
     else if currentExpression = ''loading'' then
       concat (map (\<lambda>i.
          let dotCount = 8;
              radius = 35;
              angle = (real i / dotCount) * pi * 2 + time * 0.005;
              x = w / 2 + cos angle * radius;
              y = h / 2 + sin angle * radius;
              alpha = jsRemainder1 ((real i / dotCount) + (time * 0.002))
          in [SetGlobalAlpha alpha, BeginPath, Arc x y 8 0 (pi * 2), Fill]) [0..<8])
       @ [SetGlobalAlpha 1]
     else if currentExpression = ''sad'' then
       [BeginPath, Ellipse (w / 2 - eyeSpacing) (eyeY + 8) (eyeWidth * 0.9) (eyeHeight * 0.6 * blinkScale) 0.2 0 (pi * 2), Fill,
        BeginPath, Ellipse (w / 2 + eyeSpacing) (eyeY + 8) (eyeWidth * 0.9) (eyeHeight * 0.6 * blinkScale) (- 0.2) 0 (pi * 2), Fill,
        SetLineWidth 4,
        BeginPath, Arc (w / 2) (h * 0.82) 25 (1.1 * pi) (1.9 * pi), Stroke]
     else if currentExpression = ''angry'' then
       [Save, Translate (w / 2 - eyeSpacing) eyeY, Rotate (- 0.3),
        FillRect (- eyeWidth) (- eyeHeight * 0.3 * blinkScale) (eyeWidth * 2) (eyeHeight * 0.6 * blinkScale),
        Restore,
        Save, Translate (w / 2 + eyeSpacing) eyeY, Rotate 0.3,
        FillRect (- eyeWidth) (- eyeHeight * 0.3 * blinkScale) (eyeWidth * 2) (eyeHeight * 0.6 * blinkScale),
        Restore,
        SetLineWidth 5,
        BeginPath, MoveTo (w / 2 - 30) (h * 0.72), LineTo (w / 2 + 30) (h * 0.72), Stroke]
     else if currentExpression = ''wink'' then
       [BeginPath, Ellipse (w / 2 - eyeSpacing) eyeY eyeWidth (eyeHeight * blinkScale) 0 0 (pi * 2), Fill,
        SetLineWidth 6,
        BeginPath, Arc (w / 2 + eyeSpacing) eyeY 25 0 pi, Stroke,
        SetLineWidth 4,
        BeginPath, Arc (w / 2 + 10) (h * 0.70) 30 (0.1 * pi) (0.9 * pi), Stroke]
     else if currentExpression = ''excited'' then
       [BeginPath, Arc (w / 2 - eyeSpacing) eyeY 30 0 (pi * 2), Fill,
        BeginPath, Arc (w / 2 + eyeSpacing) eyeY 30 0 (pi * 2), Fill,
        SetFillStyle ''#000'']
       @ drawStar (w / 2 - eyeSpacing - 8) (eyeY - 8) 8
       @ drawStar (w / 2 + eyeSpacing - 8) (eyeY - 8) 8
       @ [SetFillStyle currentFaceColor,
          SetLineWidth 4,
          BeginPath, Arc (w / 2) (h * 0.68) 35 (0.1 * pi) (0.9 * pi), Stroke,
          BeginPath, MoveTo (w / 2 - 20) (h * 0.72), LineTo (w / 2 + 20) (h * 0.72), Stroke]
     else if currentExpression = ''sleepy'' then
       [SetLineWidth 6,
        BeginPath, Arc (w / 2 - eyeSpacing) (eyeY + 5) 25 (0.3 * pi) (0.7 * pi), Stroke,
        BeginPath, Arc (w / 2 + eyeSpacing) (eyeY + 5) 25 (0.3 * pi) (0.7 * pi), Stroke,
        BeginPath, Ellipse (w / 2) (h * 0.73) 15 20 0 0 (pi * 2), Stroke,
        SetFont ''bold 18px Inter, sans-serif'', FillText ''z'' (w * 0.75) (h * 0.35),
        SetFont ''bold 14px Inter, sans-serif'', FillText ''z'' (w * 0.80) (h * 0.28),
        SetFont ''bold 10px Inter, sans-serif'', FillText ''z'' (w * 0.84) (h * 0.22)]
     else if currentExpression = ''confused'' then
       [BeginPath, Ellipse (w / 2 - eyeSpacing) eyeY eyeWidth (eyeHeight * blinkScale) 0 0 (pi * 2), Fill,
        BeginPath, Ellipse (w / 2 + eyeSpacing) (eyeY - 5) (eyeWidth * 0.8) (eyeHeight * 0.7 * blinkScale) 0 0 (pi * 2), Fill,
        SetFont ''bold 24px Inter, sans-serif'', FillText ''?'' (w / 2 + eyeSpacing + 15) (eyeY - 25),
        SetLineWidth 4,
        BeginPath, MoveTo (w / 2 - 30) (h * 0.72),
        QuadraticCurveTo (w / 2 - 10) (h * 0.68) (w / 2) (h * 0.72),
        QuadraticCurveTo (w / 2 + 10) (h * 0.76) (w / 2 + 30) (h * 0.72), Stroke]
     else [])"

text \<open>
  \<open>drawFaceLocal\<close>: the background and the glow settings, then the override text if there
  is one (\<open>displayText\<close> is \<open>None\<close> for \<open>null\<close>; the empty string is falsy too), else the
  expression; \<open>faceTexture.needsUpdate\<close> is set on both paths.
\<close>

definition drawFaceLocal ::
  "(string \<Rightarrow> real) \<Rightarrow> string \<Rightarrow> string \<Rightarrow> string option \<Rightarrow> real \<Rightarrow> face_canvas \<Rightarrow> face_canvas" where
  "drawFaceLocal measureText currentExpression currentFaceColor displayText time c =
    (let prologue =
           [SetFillStyle ''#0a0a1a'', FillRect 0 0 faceWidth faceHeight,
            SetShadowColor currentFaceColor, SetShadowBlur 20,
            SetFillStyle currentFaceColor, SetStrokeStyle currentFaceColor,
            SetLineWidth 3, SetLineCap ''round''];
         body =
           (case displayText of
              None \<Rightarrow> expressionCalls currentExpression currentFaceColor time
            | Some text \<Rightarrow>
                if text \<noteq> [] then textCalls measureText text
                else expressionCalls currentExpression currentFaceColor time)
     in (fold exec_call (prologue @ body) c)\<lparr>needsUpdate := True\<rparr>)"

text \<open>The text painted in a raster: each \<open>fillText\<close> with the alignment and baseline it used.\<close>

fun textOps :: "painted list \<Rightarrow> (string \<times> real \<times> real \<times> string \<times> string) list" where
  "textOps [] = []"
| "textOps (PaintText t x y s # rest) = (t, x, y, d_textAlign s, d_textBaseline s) # textOps rest"
| "textOps (other # rest) = textOps rest"

chapter \<open>Properties\<close>

section \<open>The wall clamp\<close>

text \<open>
  C5. The wall clamp returns a point with \<open>x\<close> in \<open>[-8.4, 8.4]\<close> and \<open>z\<close> in \<open>[-8.4, 10]\<close>
  (the arena inset by the effective radius 0.6, except on the open \<open>+z\<close> side), and a
  proposed \<open>x\<close> of 20 clamps to exactly 8.4 whatever the proposed \<open>z\<close>.
\<close>

theorem checkWallCollision_in_arena:
  "- 8.4 \<le> fst (checkWallCollision newX newZ) \<and> fst (checkWallCollision newX newZ) \<le> 8.4
   \<and> - 8.4 \<le> snd (checkWallCollision newX newZ) \<and> snd (checkWallCollision newX newZ) \<le> 10
   \<and> fst (checkWallCollision 20 newZ) = 8.4"
  by (simp add: checkWallCollision_def ROBOT_RADIUS_def COLLISION_PADDING_def Let_def)

section \<open>The object pass\<close>

lemma collisionBody_total: "\<exists>acc'. collisionBody newX newZ obj acc = Some acc'"
  by (auto simp: collisionBody_def js_div_def Let_def)

lemma collisionLoop_total: "\<exists>r. collisionLoop newX newZ objs acc = Some r"
proof (induction objs arbitrary: acc)
  case Nil
  show ?case by simp
next
  case (Cons obj objs)
  obtain acc' where "collisionBody newX newZ obj acc = Some acc'"
    using collisionBody_total by blast
  then show ?case using Cons.IH [of acc'] by simp
qed

lemma checkObjectCollision_total: "\<exists>r. checkObjectCollision sceneRef newX newZ = Some r"
  by (cases sceneRef) (simp_all add: checkObjectCollision_def collisionLoop_total)

lemma collisionBody_near_centre:
  "distance newX newZ obj \<le> 0.001 \<Longrightarrow> collisionBody newX newZ obj acc = Some acc"
  by (simp add: collisionBody_def Let_def)

lemma collisionBody_push:
  assumes "collisionBody newX newZ obj acc \<noteq> Some acc"
  shows "0.001 < distance newX newZ obj \<and> distance newX newZ obj < minDist obj
     \<and> obj_type obj \<noteq> ''wall''
     \<and> collisionBody newX newZ obj acc =
        Some \<lparr>resultX = resultX acc + (newX - objX obj) / distance newX newZ obj
                         * (minDist obj - distance newX newZ obj),
              resultZ = resultZ acc + (newZ - objZ obj) / distance newX newZ obj
                         * (minDist obj - distance newX newZ obj),
              collision = True\<rparr>"
  using assms by (auto simp: collisionBody_def js_div_def Let_def split: if_splits)

lemma collisionLoop_skip:
  assumes "distance newX newZ obj \<le> 0.001"
  shows "collisionLoop newX newZ (xs @ obj # ys) acc = collisionLoop newX newZ (xs @ ys) acc"
proof (induction xs arbitrary: acc)
  case Nil
  show ?case using assms by (simp add: collisionBody_near_centre)
next
  case (Cons a xs)
  show ?case by (simp add: Cons.IH split: option.splits)
qed

text \<open>
  In exact arithmetic, with a single circular obstacle centred at \<open>(0, 0)\<close> with radius 0.5,
  the object pass maps every proposed point at distance 0.3 from the origin to the point
  \<open>11/3\<close> times as far out in the same direction, which is at distance exactly 1.1. What the
  code's rounded arithmetic makes of this is the subject of section ``The object pass in
  binary64''.
\<close>

lemma checkObjectCollision_exact_arithmetic:
  assumes "obj_type obj \<noteq> ''wall''" and "obj_x obj = Some 0" and "obj_z obj = Some 0"
    and "obj_radius obj = Some 0.5" and d: "sqrt (px * px + pz * pz) = 0.3"
  shows "ROBOT_RADIUS + COLLISION_PADDING = 0.6
     \<and> (\<exists>r. checkObjectCollision (Some [obj]) px pz = Some r \<and> collision r
          \<and> resultX r = (11 / 3) * px \<and> resultZ r = (11 / 3) * pz
          \<and> sqrt (resultX r * resultX r + resultZ r * resultZ r) = 1.1)"
proof -
  have dist: "distance px pz obj = 0.3"
    using assms by (simp add: distance_def objX_def objZ_def)
  have md: "minDist obj = 1.1"
    using assms by (simp add: minDist_def objR_def ROBOT_RADIUS_def COLLISION_PADDING_def)
  have body: "collisionBody px pz obj \<lparr>resultX = px, resultZ = pz, collision = False\<rparr>
      = Some \<lparr>resultX = (11 / 3) * px, resultZ = (11 / 3) * pz, collision = True\<rparr>"
    using assms(1-4)
    by (simp add: collisionBody_def dist md js_div_def objX_def objZ_def algebra_simps)
  have "sqrt ((11 / 3) * px * ((11 / 3) * px) + (11 / 3) * pz * ((11 / 3) * pz))
      = sqrt ((11 / 3)\<^sup>2 * (px * px + pz * pz))"
    by (simp add: power2_eq_square algebra_simps)
  also have "\<dots> = (11 / 3) * sqrt (px * px + pz * pz)"
    by (simp add: real_sqrt_mult)
  also have "\<dots> = 1.1" by (simp add: d)
  finally show ?thesis
    by (simp add: checkObjectCollision_def body ROBOT_RADIUS_def COLLISION_PADDING_def)
qed

text \<open>
  C6. The object pass never divides by zero: it returns a result for every obstacle list
  and every proposed point. An obstacle whose centre is within 0.001 of the proposed point
  leaves the accumulators as they are, so the pass returns what it returns without that
  obstacle. An iteration changes the accumulators only when the distance is strictly
  between 0.001 and \<open>minDist\<close> (robot radius + padding + obstacle radius), and then by the
  penetration depth \<open>minDist - distance\<close> along the unit vector from the centre to the point.
\<close>

theorem checkObjectCollision_epsilon_guard:
  "(\<exists>r. checkObjectCollision sceneRef newX newZ = Some r)
   \<and> (distance newX newZ obj \<le> 0.001 \<longrightarrow>
        collisionBody newX newZ obj acc = Some acc
        \<and> checkObjectCollision (Some (xs @ obj # ys)) newX newZ
            = checkObjectCollision (Some (xs @ ys)) newX newZ)
   \<and> (collisionBody newX newZ obj acc \<noteq> Some acc \<longrightarrow>
        0.001 < distance newX newZ obj \<and> distance newX newZ obj < minDist obj
        \<and> collisionBody newX newZ obj acc =
           Some \<lparr>resultX = resultX acc + (newX - objX obj) / distance newX newZ obj
                            * (minDist obj - distance newX newZ obj),
                 resultZ = resultZ acc + (newZ - objZ obj) / distance newX newZ obj
                            * (minDist obj - distance newX newZ obj),
                 collision = True\<rparr>)"
  using checkObjectCollision_total [of sceneRef newX newZ]
    collisionBody_near_centre [of newX newZ obj acc]
    collisionLoop_skip [of newX newZ obj xs ys]
    collisionBody_push [of newX newZ obj acc]
  by (simp add: checkObjectCollision_def)

lemma sqrt_nine_hundredths: "sqrt (9 / 100) = (3 / 10 :: real)"
  by (rule real_sqrt_unique) (simp_all add: power2_eq_square)

theorem checkObjectCollision_epsilon_guard_witness:
  "distance 0 0 \<lparr>obj_mesh = None, obj_type = ''cone'', obj_radius = Some 0.5,
                   obj_x = Some 0, obj_z = Some 0\<rparr> \<le> 0.001
   \<and> checkObjectCollision
        (Some ([] @ \<lparr>obj_mesh = None, obj_type = ''cone'', obj_radius = Some 0.5,
                      obj_x = Some 0, obj_z = Some 0\<rparr> # [])) 0 0
      = checkObjectCollision (Some ([] @ [])) 0 0
   \<and> collisionBody 0.3 0 \<lparr>obj_mesh = None, obj_type = ''cone'', obj_radius = Some 0.5,
                   obj_x = Some 0, obj_z = Some 0\<rparr>
         \<lparr>resultX = 0.3, resultZ = 0, collision = False\<rparr>
      \<noteq> Some \<lparr>resultX = 0.3, resultZ = 0, collision = False\<rparr>
   \<and> collisionBody 0.3 0 \<lparr>obj_mesh = None, obj_type = ''cone'', obj_radius = Some 0.5,
                   obj_x = Some 0, obj_z = Some 0\<rparr>
         \<lparr>resultX = 0.3, resultZ = 0, collision = False\<rparr>
      = Some \<lparr>resultX = 1.1, resultZ = 0, collision = True\<rparr>"
proof -
  let ?B = "\<lparr>obj_mesh = None, obj_type = ''cone'', obj_radius = Some 0.5,
                   obj_x = Some 0, obj_z = Some (0::real)\<rparr>"
  let ?A = "\<lparr>resultX = 0.3, resultZ = 0, collision = False\<rparr>"
  note ev = collisionBody_def distance_def minDist_def objX_def objZ_def objR_def
    ROBOT_RADIUS_def COLLISION_PADDING_def js_div_def sqrt_nine_hundredths Let_def
  have d0: "distance 0 0 ?B \<le> 0.001"
    by (simp add: ev)
  have ne: "collisionBody 0.3 0 ?B ?A \<noteq> Some ?A"
    by (simp add: ev)
  show ?thesis
    using checkObjectCollision_epsilon_guard [of None 0 0 ?B ?A "[]" "[]"]
      checkObjectCollision_epsilon_guard [of None "0.3" 0 ?B ?A "[]" "[]"] d0 ne
    by (simp add: ev)
qed

section \<open>Rounding to binary64\<close>

lemma roundEven_error: "\<bar>of_int (roundEven q) - q\<bar> \<le> 1 / 2"
  unfolding roundEven_def Let_def by (auto simp: abs_if) linarith+

lemma roundEven_unique:
  assumes "\<bar>q - of_int n\<bar> < 1 / 2"
  shows "roundEven q = n"
proof -
  have "\<lfloor>q\<rfloor> = n \<or> \<lfloor>q\<rfloor> = n - 1" using assms by (auto simp: abs_if split: if_splits) linarith+
  then show ?thesis
    using assms unfolding roundEven_def Let_def
    by (auto simp: abs_if split: if_splits)
qed

lemma ulp64_pos: "0 < ulp64 x"
  by (simp add: ulp64_def)

lemma round64_error_ulp: "x \<noteq> 0 \<Longrightarrow> \<bar>round64 x - x\<bar> \<le> ulp64 x / 2"
proof -
  assume x: "x \<noteq> 0"
  define u where "u = ulp64 x"
  define r where "r = real_of_int (roundEven (x / u))"
  have u: "0 < u" by (simp add: u_def ulp64_pos)
  have "round64 x - x = u * (r - x / u)"
    using x u by (simp add: round64_def u_def r_def field_simps)
  then have "\<bar>round64 x - x\<bar> = u * \<bar>r - x / u\<bar>"
    using u by (simp add: abs_mult)
  also have "\<dots> \<le> u * (1 / 2)"
    using roundEven_error [of "x / u"] u unfolding r_def
    by (intro mult_left_mono) simp_all
  finally show ?thesis by (simp add: u_def)
qed

lemma ulp64_bound: "x \<noteq> 0 \<Longrightarrow> ulp64 x / 2 \<le> \<bar>x\<bar> / 2 ^ 53 + 1 / 2 ^ 1075"
proof (cases "- 1022 \<le> \<lfloor>log 2 \<bar>x\<bar>\<rfloor>")
  case True
  assume x: "x \<noteq> 0"
  from True have e: "exponent64 x = \<lfloor>log 2 \<bar>x\<bar>\<rfloor>" by (simp add: exponent64_def)
  have "of_int \<lfloor>log 2 \<bar>x\<bar>\<rfloor> \<le> log 2 \<bar>x\<bar>" by simp
  then have "2 powr (of_int \<lfloor>log 2 \<bar>x\<bar>\<rfloor>) \<le> \<bar>x\<bar>"
    using x by (simp add: powr_le_iff)
  moreover have "ulp64 x = 2 powr (of_int \<lfloor>log 2 \<bar>x\<bar>\<rfloor>) / 2 ^ 52"
    by (simp add: ulp64_def e powr_diff)
  ultimately have "ulp64 x / 2 \<le> \<bar>x\<bar> / 2 ^ 53"
    by (simp add: field_simps)
  then show ?thesis by (simp add: add_increasing2)
next
  case False
  then have e: "exponent64 x = - 1022" by (auto simp: exponent64_def)
  have "ulp64 x = 1 / 2 ^ 1074"
    by (simp add: ulp64_def e powr_minus_divide)
  then show ?thesis by (simp add: add_increasing)
qed

lemma round64_error: "\<bar>round64 x - x\<bar> \<le> \<bar>x\<bar> / 2 ^ 53 + 1 / 2 ^ 1075"
proof (cases "x = 0")
  case True
  then show ?thesis by (simp add: round64_def)
next
  case False
  then show ?thesis using round64_error_ulp [of x] ulp64_bound [of x] by linarith
qed

lemma exponent64_eval:
  assumes "2 ^ 52 / 2 ^ k \<le> \<bar>x\<bar>" and "\<bar>x\<bar> < 2 ^ 53 / 2 ^ k" and "k \<le> 1074"
  shows "exponent64 x = 52 - int k"
proof -
  have "(0::real) < 2 ^ 52 / 2 ^ k" by simp
  then have x: "0 < \<bar>x\<bar>" using assms(1) by linarith
  have p: "2 powr (of_int (52 - int k)) = (2::real) ^ 52 / 2 ^ k"
    by (simp add: powr_diff powr_realpow)
  have p1: "2 powr (of_int (52 - int k) + 1) = (2::real) ^ 53 / 2 ^ k"
    by (simp add: powr_diff powr_add powr_realpow)
  have "2 powr (of_int (52 - int k)) \<le> \<bar>x\<bar>" using assms(1) by (simp only: p)
  then have "of_int (52 - int k) \<le> log 2 \<bar>x\<bar>"
    using x by (subst le_log_iff) simp_all
  moreover have "\<bar>x\<bar> < 2 powr (of_int (52 - int k) + 1)" using assms(2) by (simp only: p1)
  then have "log 2 \<bar>x\<bar> < of_int (52 - int k) + 1"
    using x by (subst log_less_iff) simp_all
  ultimately have "\<lfloor>log 2 \<bar>x\<bar>\<rfloor> = 52 - int k"
    by (simp add: floor_eq_iff)
  then show ?thesis using assms(3) by (simp add: exponent64_def)
qed

lemma round64_eval:
  assumes "2 ^ 52 / 2 ^ k \<le> \<bar>x\<bar>" and "\<bar>x\<bar> < 2 ^ 53 / 2 ^ k" and "k \<le> 1074"
    and "\<bar>x - of_int n / 2 ^ k\<bar> < 1 / 2 ^ (k + 1)"
  shows "round64 x = of_int n / 2 ^ k"
proof -
  have "(0::real) < 2 ^ 52 / 2 ^ k" by simp
  then have "0 < \<bar>x\<bar>" using assms(1) by linarith
  then have x: "x \<noteq> 0" by auto
  have u: "ulp64 x = 1 / 2 ^ k"
    unfolding ulp64_def exponent64_eval [OF assms(1,2,3)]
    by (simp add: powr_minus_divide powr_realpow)
  have "x * 2 ^ k - of_int n = (x - of_int n / 2 ^ k) * 2 ^ k"
    by (simp add: field_simps)
  then have "\<bar>x * 2 ^ k - of_int n\<bar> = \<bar>x - of_int n / 2 ^ k\<bar> * 2 ^ k"
    by (simp add: abs_mult)
  also have "\<dots> < 1 / 2 ^ (k + 1) * 2 ^ k"
    using assms(4) by (intro mult_strict_right_mono) simp_all
  finally have "\<bar>x * 2 ^ k - of_int n\<bar> < 1 / 2" by simp
  then have "roundEven (x * 2 ^ k) = n" by (rule roundEven_unique)
  then show ?thesis using x by (simp add: round64_def u)
qed

lemma round64_binade:
  assumes "2 ^ 52 / 2 ^ k \<le> \<bar>x\<bar>" and "\<bar>x\<bar> < 2 ^ 53 / 2 ^ k" and "k \<le> 1074"
  shows "round64 x = of_int (roundEven (x * 2 ^ k)) / 2 ^ k"
proof -
  have "(0::real) < 2 ^ 52 / 2 ^ k" by simp
  then have "0 < \<bar>x\<bar>" using assms(1) by linarith
  then have x: "x \<noteq> 0" by auto
  have u: "ulp64 x = 1 / 2 ^ k"
    unfolding ulp64_def exponent64_eval [OF assms(1,2,3)]
    by (simp add: powr_minus_divide powr_realpow)
  show ?thesis using x by (simp add: round64_def u)
qed


lemma fsqrt_eval:
  fixes n k :: nat
  assumes "2 ^ 52 < n" and "n < 2 ^ 53" and "k \<le> 1074"
    and "((2 * real n - 1) / 2 ^ (k + 1))\<^sup>2 < a" and "a < ((2 * real n + 1) / 2 ^ (k + 1))\<^sup>2"
  shows "fsqrt a = real n / 2 ^ k"
proof -
  have n1: "2 ^ 53 + 1 \<le> 2 * real n" 
  proof -
    have "2 ^ 52 + 1 \<le> n" using assms(1) by simp
    then have "real (2 ^ 52 + 1) \<le> real n" by (rule of_nat_mono)
    then show ?thesis by simp
  qed
  have n2: "2 * real n + 1 \<le> 2 ^ 54 - 1"
  proof -
    have "n + 1 \<le> 2 ^ 53" using assms(2) by simp
    then have "real (n + 1) \<le> real (2 ^ 53)" by (rule of_nat_mono)
    then show ?thesis by simp
  qed
  have lo0: "0 \<le> (2 * real n - 1) / 2 ^ (k + 1)" using n1 by simp
  have hi0: "0 < (2 * real n + 1) / 2 ^ (k + 1)" by (simp add: add_pos_nonneg)
  have lo: "(2 * real n - 1) / 2 ^ (k + 1) < sqrt a"
    using assms(4) by (rule real_less_rsqrt)
  have a0: "0 \<le> a" using assms(4) by (smt (verit) zero_le_power2)
  have hi: "sqrt a < (2 * real n + 1) / 2 ^ (k + 1)"
    using assms(5) hi0 by (intro real_less_lsqrt) simp_all
  have b1: "2 ^ 52 / 2 ^ k \<le> \<bar>sqrt a\<bar>"
  proof -
    have "(2::real) ^ 52 / 2 ^ k = 2 ^ 53 / 2 ^ (k + 1)" by simp
    also have "\<dots> \<le> (2 * real n - 1) / 2 ^ (k + 1)"
      using n1 by (intro divide_right_mono) simp_all
    finally show ?thesis using lo by simp
  qed
  have b2: "\<bar>sqrt a\<bar> < 2 ^ 53 / 2 ^ k"
  proof -
    have "(2 * real n + 1) / 2 ^ (k + 1) \<le> (2 ^ 54 - 1) / 2 ^ (k + 1)"
      using n2 by (intro divide_right_mono) simp_all
    also have "\<dots> < 2 ^ 54 / 2 ^ (k + 1)"
      by (intro divide_strict_right_mono) simp_all
    also have "\<dots> = 2 ^ 53 / 2 ^ k" by simp
    finally show ?thesis using hi a0 by simp
  qed
  have b3: "\<bar>sqrt a - of_int (int n) / 2 ^ k\<bar> < 1 / 2 ^ (k + 1)"
  proof -
    define c where "c = real n / 2 ^ k"
    define h :: real where "h = 1 / 2 ^ (k + 1)"
    have "(2 * real n - 1) / 2 ^ (k + 1) = c - h"
      by (simp add: c_def h_def field_simps)
    moreover have "(2 * real n + 1) / 2 ^ (k + 1) = c + h"
      by (simp add: c_def h_def field_simps)
    ultimately have "c - h < sqrt a" "sqrt a < c + h" using lo hi by simp_all
    then have "\<bar>sqrt a - c\<bar> < h" by linarith
    then show ?thesis by (simp add: c_def h_def)
  qed
  show ?thesis
    unfolding fsqrt_def using round64_eval [OF b1 b2 assms(3) b3] by simp
qed

section \<open>The object pass in binary64\<close>

lemma round64_three_tenths: "round64 (3 / 10) = 5404319552844595 / 18014398509481984"
  using round64_binade [of 54 "3 / 10"] by (simp add: roundEven_def)

lemma round64_six_tenths: "round64 (3 / 5) = 5404319552844595 / 9007199254740992"
  using round64_binade [of 53 "6 / 10"] by (simp add: roundEven_def)

lemma round64_eleven_tenths: "round64 (11 / 10) = 2476979795053773 / 2251799813685248"
  using round64_binade [of 52 "11 / 10"] by (simp add: roundEven_def)

lemma round64_thousandth: "round64 (1 / 1000) = 1152921504606847 / 1152921504606846976"
  using round64_binade [of 62 "1 / 1000"] by (simp add: roundEven_def)

lemma round64_tenth: "round64 (1 / 10) = 3602879701896397 / 36028797018963968"
  using round64_binade [of 56 "1 / 10"] by (simp add: roundEven_def)

lemma robotR64_eval: "robotR64 = 5404319552844595 / 9007199254740992"
proof -
  have "round64 (21617278211378381 / 36028797018963968) = 5404319552844595 / 9007199254740992"
    using round64_binade [of 53 "21617278211378381 / 36028797018963968"]
    by (simp add: roundEven_def)
  then show ?thesis
    by (simp add: robotR64_def fadd_def round64_tenth)
qed

lemma minDist64_half:
  assumes "objR obj = 0.5"
  shows "minDist64 obj = 2476979795053773 / 2251799813685248"
proof -
  have "round64 (9907919180215091 / 9007199254740992) = 2476979795053773 / 2251799813685248"
    using round64_binade [of 52 "9907919180215091 / 9007199254740992"]
    by (simp add: roundEven_def)
  then show ?thesis
    by (simp add: minDist64_def robotR64_eval fadd_def assms)
qed

lemma round64_err:
  "\<bar>round64 x - x\<bar> \<le> \<bar>x\<bar> / 9007199254740992 + 1 / 1000000000000000000000000000000"
proof -
  have "(1::real) / 2 ^ 1075 \<le> 1 / 1000000000000000000000000000000" by simp
  then show ?thesis using round64_error [of x] by simp
qed

lemma pushDist_eval:
  "round64 (14411518807585589 / 18014398509481984) = 3602879701896397 / 4503599627370496"
  using round64_binade [of 53 "14411518807585589 / 18014398509481984"]
  by (simp add: roundEven_def)

text \<open>
  The exact squared distance of a point whose computed distance from the origin is the
  binary64 number 0.3.
\<close>

lemma near_three_tenths:
  assumes "round64 (sqrt (round64 (round64 (x * x) + round64 (z * z))))
      = 5404319552844595 / 18014398509481984"
  shows "x * x + z * z \<le> 90000000000000033313 / 1000000000000000000000"
    and "89999999999999953365 / 1000000000000000000000 \<le> x * x + z * z"
proof -
  define c where "c = round64 (x * x) + round64 (z * z)"
  define ss where "ss = round64 c"
  define t where "t = sqrt ss"
  have rt: "round64 t = 5404319552844595 / 18014398509481984"
    using assms by (simp add: t_def ss_def c_def)
  have "\<bar>round64 t - t\<bar> \<le> \<bar>t\<bar> / 9007199254740992 + 1 / 1000000000000000000000000000000"
    by (rule round64_err)
  then have t: "299999999999999955590 / 1000000000000000000000 \<le> t"
      "t \<le> 300000000000000022206 / 1000000000000000000000"
    unfolding rt by linarith+
  have t0: "0 < t" using t(1) by linarith
  then have ss0: "0 < ss" by (simp add: t_def)
  have sst: "ss = t * t" using ss0 by (simp add: t_def)
  have "(299999999999999955590 / 1000000000000000000000)
      * (299999999999999955590 / 1000000000000000000000) \<le> t * t"
    using t(1) by (intro mult_mono) simp_all
  moreover have "t * t \<le> (300000000000000022206 / 1000000000000000000000)
      * (300000000000000022206 / 1000000000000000000000)"
    using t(2) t0 by (intro mult_mono) simp_all
  ultimately have ss: "89999999999999973353 / 1000000000000000000000 \<le> ss"
      "ss \<le> 90000000000000013325 / 1000000000000000000000"
    unfolding sst by simp_all
  have "\<bar>round64 c - c\<bar> \<le> \<bar>c\<bar> / 9007199254740992 + 1 / 1000000000000000000000000000000"
    by (rule round64_err)
  then have c: "89999999999999963359 / 1000000000000000000000 \<le> c"
      "c \<le> 90000000000000023319 / 1000000000000000000000"
    using ss unfolding ss_def by linarith+
  have x: "\<bar>round64 (x * x) - x * x\<bar>
      \<le> \<bar>x * x\<bar> / 9007199254740992 + 1 / 1000000000000000000000000000000"
    by (rule round64_err)
  have z: "\<bar>round64 (z * z) - z * z\<bar>
      \<le> \<bar>z * z\<bar> / 9007199254740992 + 1 / 1000000000000000000000000000000"
    by (rule round64_err)
  have x0: "0 \<le> x * x" and z0: "0 \<le> z * z" by simp_all
  show "x * x + z * z \<le> 90000000000000033313 / 1000000000000000000000"
    using x z x0 z0 c unfolding c_def by linarith
  show "89999999999999953365 / 1000000000000000000000 \<le> x * x + z * z"
    using x z x0 z0 c unfolding c_def by linarith
qed

text \<open>
  One coordinate of the pushed point: \<open>x + (x / 0.3) * 0.8\<close> with the results of the
  division, the product and the sum rounded.
\<close>

lemma pushed_coordinate:
  assumes "\<bar>x\<bar> \<le> 300000000000000055523 / 1000000000000000000000"
  shows "\<bar>fadd x (fmul (round64 (x / (5404319552844595 / 18014398509481984)))
            (3602879701896397 / 4503599627370496)) - 11 / 3 * x\<bar>
      \<le> 4 / 10000000000000000"
proof -
  define nx where "nx = round64 (x * (18014398509481984 / 5404319552844595))"
  define tx where "tx = round64 (nx * (3602879701896397 / 4503599627370496))"
  define rx where "rx = round64 (x + tx)"
  have e1: "\<bar>nx - x * (18014398509481984 / 5404319552844595)\<bar>
      \<le> \<bar>x * (18014398509481984 / 5404319552844595)\<bar> / 9007199254740992
        + 1 / 1000000000000000000000000000000"
    unfolding nx_def by (rule round64_err)
  have e2: "\<bar>tx - nx * (3602879701896397 / 4503599627370496)\<bar>
      \<le> \<bar>nx * (3602879701896397 / 4503599627370496)\<bar> / 9007199254740992
        + 1 / 1000000000000000000000000000000"
    unfolding tx_def by (rule round64_err)
  define w where "w = x + tx"
  have e3: "\<bar>rx - w\<bar> \<le> \<bar>w\<bar> / 9007199254740992
        + 1 / 1000000000000000000000000000000"
    unfolding rx_def w_def by (rule round64_err)
  have n: "\<bar>nx\<bar> \<le> 1001 / 1000" using e1 assms by linarith
  have t: "\<bar>tx\<bar> \<le> 801 / 1000" using e2 n by linarith
  have d1: "\<bar>nx - x * (18014398509481984 / 5404319552844595)\<bar> \<le> 112 / 1000000000000000000"
    using e1 assms by linarith
  have d2: "\<bar>tx - nx * (3602879701896397 / 4503599627370496)\<bar> \<le> 90 / 1000000000000000000"
    using e2 n by linarith
  have "\<bar>w\<bar> \<le> 1102 / 1000" using t assms unfolding w_def by linarith
  then have d3: "\<bar>rx - w\<bar> \<le> 123 / 1000000000000000000"
    using e3 by linarith
  have "\<bar>rx - 11 / 3 * x\<bar> \<le> 4 / 10000000000000000"
    using d1 d2 d3 assms unfolding w_def by linarith
  then show ?thesis
    by (simp add: rx_def tx_def nx_def fadd_def fmul_def)
qed


lemma abs_le_of_square:
  fixes x X :: real
  assumes "x * x \<le> X * X" and "0 \<le> X"
  shows "\<bar>x\<bar> \<le> X"
proof -
  have "x\<^sup>2 \<le> X\<^sup>2" using assms(1) by (simp add: power2_eq_square)
  then have "\<bar>x\<bar> \<le> \<bar>X\<bar>" by (simp only: abs_le_square_iff)
  then show ?thesis using assms(2) by simp
qed

lemma sqrt_sum_squares_small:
  fixes a b e :: real
  assumes "\<bar>a\<bar> \<le> e" and "\<bar>b\<bar> \<le> e" and "2 * (e * e) \<le> B * B" and "0 \<le> B"
  shows "sqrt (a * a + b * b) \<le> B"
proof -
  have "\<bar>a\<bar> * \<bar>a\<bar> \<le> e * e"
    using assms(1) by (intro mult_mono) simp_all
  then have a: "a * a \<le> e * e" by simp
  have "\<bar>b\<bar> * \<bar>b\<bar> \<le> e * e"
    using assms(2) by (intro mult_mono) simp_all
  then have b: "b * b \<le> e * e" by simp
  have "a * a + b * b \<le> B * B"
    using a b assms(3) by linarith
  then have "a * a + b * b \<le> B\<^sup>2"
    by (simp add: power2_eq_square)
  with assms(4) show ?thesis by (rule real_le_lsqrt)
qed

lemma distance_perturbed:
  fixes a b c d :: real
  shows "\<bar>sqrt ((a + c) * (a + c) + (b + d) * (b + d)) - sqrt (a * a + b * b)\<bar>
      \<le> sqrt (c * c + d * d)"
proof -
  have 1: "sqrt ((a + c)\<^sup>2 + (b + d)\<^sup>2) \<le> sqrt (a\<^sup>2 + b\<^sup>2) + sqrt (c\<^sup>2 + d\<^sup>2)"
    by (rule real_sqrt_sum_squares_triangle_ineq)
  have "sqrt (((a + c) + (- c))\<^sup>2 + ((b + d) + (- d))\<^sup>2)
      \<le> sqrt ((a + c)\<^sup>2 + (b + d)\<^sup>2) + sqrt ((- c)\<^sup>2 + (- d)\<^sup>2)"
    by (rule real_sqrt_sum_squares_triangle_ineq)
  then have 2: "sqrt (a\<^sup>2 + b\<^sup>2) \<le> sqrt ((a + c)\<^sup>2 + (b + d)\<^sup>2) + sqrt (c\<^sup>2 + d\<^sup>2)"
    by simp
  have "\<bar>sqrt ((a + c)\<^sup>2 + (b + d)\<^sup>2) - sqrt (a\<^sup>2 + b\<^sup>2)\<bar> \<le> sqrt (c\<^sup>2 + d\<^sup>2)"
    using 1 2 by linarith
  then show ?thesis by (simp only: power2_eq_square)
qed


text \<open>
  C4 as claimed fails in the code's arithmetic. For the single obstacle at \<open>(0, 0)\<close> with
  radius 0.5 and the proposed point \<open>(0.28402496040954867, - 0.09659100301971349)\<close>, whose
  computed distance from the origin is the binary64 number 0.3, the object pass returns
  \<open>(1.0414248548350118, - 0.35416701107228277)\<close> with the collision flag true. The distance
  of that point from the origin is not 1.1: computed as the code computes it, it is
  \<open>1.0999999999999999\<close>, below the binary64 number 1.1 that \<open>minDist\<close> is; computed exactly, it
  is below 1.1 as well.
\<close>

theorem checkObjectCollision_single_obstacle_counterexample:
  "distance64 (5116538823457453 / 18014398509481984) (- (3480057641655393 / 36028797018963968))
      \<lparr>obj_mesh = Some (0, 0), obj_type = ''barrel'', obj_radius = Some 0.5, obj_x = Some 0, obj_z = Some 0\<rparr> = round64 0.3
   \<and> checkObjectCollision64 (Some [\<lparr>obj_mesh = Some (0, 0), obj_type = ''barrel'', obj_radius = Some 0.5, obj_x = Some 0, obj_z = Some 0\<rparr>])
        (5116538823457453 / 18014398509481984) (- (3480057641655393 / 36028797018963968))
      = Some \<lparr>resultX = (1172540147042333 / 1125899906842624), resultZ = (- (1595026419092055 / 4503599627370496)), collision = True\<rparr>
   \<and> distance64 (1172540147042333 / 1125899906842624) (- (1595026419092055 / 4503599627370496))
      \<lparr>obj_mesh = Some (0, 0), obj_type = ''barrel'', obj_radius = Some 0.5, obj_x = Some 0, obj_z = Some 0\<rparr> = (4953959590107545 / 4503599627370496)
   \<and> (4953959590107545 / 4503599627370496) < round64 1.1
   \<and> sqrt ((1172540147042333 / 1125899906842624) * (1172540147042333 / 1125899906842624) + (- (1595026419092055 / 4503599627370496)) * (- (1595026419092055 / 4503599627370496))) < 1.1"
proof -
  have h1: "round64 (3 / 10) = (5404319552844595 / 18014398509481984)"
    using round64_binade [of 54 "(3 / 10)"] by (simp add: roundEven_def )
  have h2: "round64 (11 / 10) = (2476979795053773 / 2251799813685248)"
    using round64_binade [of 52 "(11 / 10)"] by (simp add: roundEven_def )
  have h3: "round64 (1 / 10) = (3602879701896397 / 36028797018963968)"
    using round64_binade [of 56 "(1 / 10)"] by (simp add: roundEven_def )
  have h4: "fadd (1 / 2) (3602879701896397 / 36028797018963968) = (5404319552844595 / 9007199254740992)"
    using round64_binade [of 53 "(21617278211378381 / 36028797018963968)"] by (simp add: roundEven_def fadd_def)
  have h5: "round64 (1 / 1000) = (1152921504606847 / 1152921504606846976)"
    using round64_binade [of 62 "(1 / 1000)"] by (simp add: roundEven_def )
  have h6: "fsub (5116538823457453 / 18014398509481984) 0 = (5116538823457453 / 18014398509481984)"
    using round64_binade [of 54 "(5116538823457453 / 18014398509481984)"] by (simp add: roundEven_def fsub_def)
  have h7: "fsub (- (3480057641655393 / 36028797018963968)) 0 = - (3480057641655393 / 36028797018963968)"
    using round64_binade [of 56 "- (3480057641655393 / 36028797018963968)"] by (simp add: roundEven_def fsub_def)
  have h8: "fmul (5116538823457453 / 18014398509481984) (5116538823457453 / 18014398509481984) = (5812898947065687 / 72057594037927936)"
    using round64_binade [of 56 "(26178969531947377397604901247209 / 324518553658426726783156020576256)"] by (simp add: roundEven_def fmul_def)
  have h9: "fmul (- (3480057641655393 / 36028797018963968)) (- (3480057641655393 / 36028797018963968)) = (5378276130782609 / 576460752303423488)"
    using round64_binade [of 59 "(12110801189244095716445365984449 / 1298074214633706907132624082305024)"] by (simp add: roundEven_def fmul_def)
  have h10: "fadd (5812898947065687 / 72057594037927936) (5378276130782609 / 576460752303423488) = (6485183463413513 / 72057594037927936)"
    using round64_binade [of 56 "(51881467707308105 / 576460752303423488)"] by (simp add: roundEven_def fadd_def)
  have h11: "fsqrt (6485183463413513 / 72057594037927936) = (5404319552844595 / 18014398509481984)"
    using fsqrt_eval [of 5404319552844595 54 "(6485183463413513 / 72057594037927936)"] by (simp add: power2_eq_square)
  have h12: "fadd (5404319552844595 / 9007199254740992) (1 / 2) = (2476979795053773 / 2251799813685248)"
    using round64_binade [of 52 "(9907919180215091 / 9007199254740992)"] by (simp add: roundEven_def fadd_def)
  have h13: "fsub (2476979795053773 / 2251799813685248) (5404319552844595 / 18014398509481984) = (3602879701896397 / 4503599627370496)"
    using round64_binade [of 53 "(14411518807585589 / 18014398509481984)"] by (simp add: roundEven_def fsub_def)
  have h14: "fdiv (5116538823457453 / 18014398509481984) (5404319552844595 / 18014398509481984) = Some (4263782352881211 / 4503599627370496)"
    using round64_binade [of 53 "(5116538823457453 / 5404319552844595)"] by (simp add: roundEven_def fdiv_def)
  have h15: "fdiv (- (3480057641655393 / 36028797018963968)) (5404319552844595 / 18014398509481984) = Some (- (5800096069425655 / 18014398509481984))"
    using round64_binade [of 54 "- (3480057641655393 / 10808639105689190)"] by (simp add: roundEven_def fdiv_def)
  have h16: "fmul (4263782352881211 / 4503599627370496) (3602879701896397 / 4503599627370496) = (3411025882304969 / 4503599627370496)"
    using round64_binade [of 53 "(15361894892499775685973569896767 / 20282409603651670423947251286016)"] by (simp add: roundEven_def fmul_def)
  have h17: "fmul (- (5800096069425655 / 18014398509481984)) (3602879701896397 / 4503599627370496) = - (1160019213885131 / 4503599627370496)"
    using round64_binade [of 54 "- (20897048397582767844474103865035 / 81129638414606681695789005144064)"] by (simp add: roundEven_def fmul_def)
  have h18: "fadd (5116538823457453 / 18014398509481984) (3411025882304969 / 4503599627370496) = (1172540147042333 / 1125899906842624)"
    using round64_binade [of 52 "(18760642352677329 / 18014398509481984)"] by (simp add: roundEven_def fadd_def)
  have h19: "fadd (- (3480057641655393 / 36028797018963968)) (- (1160019213885131 / 4503599627370496)) = - (1595026419092055 / 4503599627370496)"
    using round64_binade [of 54 "- (12760211352736441 / 36028797018963968)"] by (simp add: roundEven_def fadd_def)
  have h20: "fsub (1172540147042333 / 1125899906842624) 0 = (1172540147042333 / 1125899906842624)"
    using round64_binade [of 52 "(1172540147042333 / 1125899906842624)"] by (simp add: roundEven_def fsub_def)
  have h21: "fsub (- (1595026419092055 / 4503599627370496)) 0 = - (1595026419092055 / 4503599627370496)"
    using round64_binade [of 54 "- (1595026419092055 / 4503599627370496)"] by (simp add: roundEven_def fsub_def)
  have h22: "fmul (1172540147042333 / 1125899906842624) (1172540147042333 / 1125899906842624) = (1221112452421785 / 1125899906842624)"
    using round64_binade [of 52 "(1374850396426055893087694082889 / 1267650600228229401496703205376)"] by (simp add: roundEven_def fmul_def)
  have h23: "fmul (- (1595026419092055 / 4503599627370496)) (- (1595026419092055 / 4503599627370496)) = (4519245915449275 / 36028797018963968)"
    using round64_binade [of 55 "(2544109277601623875010564123025 / 20282409603651670423947251286016)"] by (simp add: roundEven_def fmul_def)
  have h24: "fadd (1221112452421785 / 1125899906842624) (4519245915449275 / 36028797018963968) = (5449355549118299 / 4503599627370496)"
    using round64_binade [of 52 "(43594844392946395 / 36028797018963968)"] by (simp add: roundEven_def fadd_def)
  have h25: "fsqrt (5449355549118299 / 4503599627370496) = (4953959590107545 / 4503599627370496)"
    using fsqrt_eval [of 4953959590107545 52 "(5449355549118299 / 4503599627370496)"] by (simp add: power2_eq_square)
  have s: "sqrt ((1172540147042333 / 1125899906842624) * (1172540147042333 / 1125899906842624) + (- (1595026419092055 / 4503599627370496)) * (- (1595026419092055 / 4503599627370496))) < 1.1"
    by (rule real_less_lsqrt) (simp_all add: power2_eq_square)
  show ?thesis
    using s
    by (simp add: checkObjectCollision64_def collisionBody64_def distance64_def minDist64_def
        robotR64_def objX_def objZ_def objR_def Let_def h1 h2 h3 h4 h5 h6 h7 h8 h9 h10 h11 h12 h13 h14 h15 h16 h17 h18 h19 h20 h21 h22 h23 h24 h25)
qed

text \<open>
  C4, amended. The effective robot radius is the binary64 number 0.6 and \<open>minDist\<close> for an
  obstacle of radius 0.5 is the binary64 number 1.1. With a single obstacle at \<open>(0, 0)\<close> of
  radius 0.5, the object pass maps every proposed point with binary64 coordinates whose
  computed distance from the origin is the binary64 number 0.3 to a point that is, in each
  coordinate, within \<open>4 * 10^(- 16)\<close> of \<open>11/3\<close> times the proposed point (the same direction),
  and whose distance from the origin is within \<open>10^(- 15)\<close> of 1.1; the collision flag is true.
\<close>

theorem checkObjectCollision_single_obstacle:
  assumes "obj_type obj \<noteq> ''wall''" and "obj_x obj = Some 0" and "obj_z obj = Some 0"
    and "obj_radius obj = Some 0.5"
    and px: "round64 px = px" and pz: "round64 pz = pz"
    and d: "distance64 px pz obj = round64 0.3"
  shows "robotR64 = round64 0.6 \<and> minDist64 obj = round64 1.1
     \<and> (\<exists>r. checkObjectCollision64 (Some [obj]) px pz = Some r \<and> collision r
          \<and> \<bar>resultX r - 11 / 3 * px\<bar> \<le> 4 / 10 ^ 16
          \<and> \<bar>resultZ r - 11 / 3 * pz\<bar> \<le> 4 / 10 ^ 16
          \<and> \<bar>sqrt (resultX r * resultX r + resultZ r * resultZ r) - 1.1\<bar> \<le> 1 / 10 ^ 15)"
proof -
  have o: "objX obj = 0" "objZ obj = 0" "objR obj = 0.5"
    using assms(2,3,4) by (simp_all add: objX_def objZ_def objR_def)
  have md: "minDist64 obj = 2476979795053773 / 2251799813685248"
    using o(3) by (rule minDist64_half)
  have dist: "distance64 px pz obj
      = round64 (sqrt (round64 (round64 (px * px) + round64 (pz * pz))))"
    by (simp add: distance64_def o fsub_def fmul_def fadd_def fsqrt_def px pz)
  have d': "round64 (sqrt (round64 (round64 (px * px) + round64 (pz * pz))))
      = 5404319552844595 / 18014398509481984"
    using d by (simp only: dist round64_three_tenths)
  have dd: "distance64 px pz obj = 5404319552844595 / 18014398509481984"
    using d by (simp only: round64_three_tenths)
  note q = near_three_tenths [OF d']
  have x: "\<bar>px\<bar> \<le> 300000000000000055523 / 1000000000000000000000"
  proof (rule abs_le_of_square)
    have "0 \<le> pz * pz" by simp
    then have "px * px \<le> 90000000000000033313 / 1000000000000000000000"
      using q(1) by linarith
    also have "\<dots> \<le> 300000000000000055523 / 1000000000000000000000
        * (300000000000000055523 / 1000000000000000000000)"
      by simp
    finally show "px * px \<le> 300000000000000055523 / 1000000000000000000000
        * (300000000000000055523 / 1000000000000000000000)" .
  qed simp
  have z: "\<bar>pz\<bar> \<le> 300000000000000055523 / 1000000000000000000000"
  proof (rule abs_le_of_square)
    have "0 \<le> px * px" by simp
    then have "pz * pz \<le> 90000000000000033313 / 1000000000000000000000"
      using q(1) by linarith
    also have "\<dots> \<le> 300000000000000055523 / 1000000000000000000000
        * (300000000000000055523 / 1000000000000000000000)"
      by simp
    finally show "pz * pz \<le> 300000000000000055523 / 1000000000000000000000
        * (300000000000000055523 / 1000000000000000000000)" .
  qed simp
  define rx where "rx = fadd px (fmul (round64 (px / (5404319552844595 / 18014398509481984)))
            (3602879701896397 / 4503599627370496))"
  define rz where "rz = fadd pz (fmul (round64 (pz / (5404319552844595 / 18014398509481984)))
            (3602879701896397 / 4503599627370496))"
  have body: "collisionBody64 px pz obj \<lparr>resultX = px, resultZ = pz, collision = False\<rparr>
      = Some \<lparr>resultX = rx, resultZ = rz, collision = True\<rparr>"
    using assms(1)
    by (simp add: collisionBody64_def dd md round64_thousandth pushDist_eval fdiv_def fsub_def
        o px pz rx_def rz_def Let_def)
  have ex: "\<bar>rx - 11 / 3 * px\<bar> \<le> 4 / 10000000000000000"
    unfolding rx_def using x by (rule pushed_coordinate)
  have ez: "\<bar>rz - 11 / 3 * pz\<bar> \<le> 4 / 10000000000000000"
    unfolding rz_def using z by (rule pushed_coordinate)
  define n where "n = sqrt (px * px + pz * pz)"
  have n: "299999999999999922273 / 1000000000000000000000 \<le> n"
      "n \<le> 300000000000000055523 / 1000000000000000000000"
  proof -
    have "(299999999999999922273 / 1000000000000000000000)\<^sup>2 \<le> px * px + pz * pz"
      using q(2) by (simp add: power2_eq_square)
    then show "299999999999999922273 / 1000000000000000000000 \<le> n"
      unfolding n_def by (rule real_le_rsqrt)
    have "px * px + pz * pz \<le> (300000000000000055523 / 1000000000000000000000)\<^sup>2"
      using q(1) by (simp add: power2_eq_square)
    then show "n \<le> 300000000000000055523 / 1000000000000000000000"
      unfolding n_def by (intro real_le_lsqrt) simp_all
  qed
  have scaled: "sqrt (11 / 3 * px * (11 / 3 * px) + 11 / 3 * pz * (11 / 3 * pz)) = 11 / 3 * n"
  proof -
    have "11 / 3 * px * (11 / 3 * px) + 11 / 3 * pz * (11 / 3 * pz)
        = (11 / 3)\<^sup>2 * (px * px + pz * pz)"
      by (simp add: power2_eq_square algebra_simps)
    then show ?thesis by (simp add: real_sqrt_mult n_def)
  qed
  define ex where "ex = rx - 11 / 3 * px"
  define ez where "ez = rz - 11 / 3 * pz"
  have rxe: "11 / 3 * px + ex = rx" and rze: "11 / 3 * pz + ez = rz"
    by (simp_all add: ex_def ez_def)
  have small: "sqrt (ex * ex + ez * ez) \<le> 566 / 1000000000000000000"
    using ex ez unfolding ex_def [symmetric] ez_def [symmetric]
    by (rule sqrt_sum_squares_small) simp_all
  have "\<bar>sqrt ((11 / 3 * px + ex) * (11 / 3 * px + ex) + (11 / 3 * pz + ez) * (11 / 3 * pz + ez))
      - sqrt (11 / 3 * px * (11 / 3 * px) + 11 / 3 * pz * (11 / 3 * pz))\<bar>
      \<le> sqrt (ex * ex + ez * ez)"
    by (rule distance_perturbed)
  then have "\<bar>sqrt (rx * rx + rz * rz) - 11 / 3 * n\<bar> \<le> sqrt (ex * ex + ez * ez)"
    by (simp only: rxe rze scaled)
  then have dist_r: "\<bar>sqrt (rx * rx + rz * rz) - 11 / 10\<bar> \<le> 1 / 1000000000000000"
    using small n by linarith
  have "checkObjectCollision64 (Some [obj]) px pz
      = Some \<lparr>resultX = rx, resultZ = rz, collision = True\<rparr>"
    by (simp add: checkObjectCollision64_def body)
  then show ?thesis
    using ex ez dist_r
    by (simp add: robotR64_eval round64_six_tenths md round64_eleven_tenths)
qed

theorem checkObjectCollision_single_obstacle_witness:
  "round64 (5404319552844595 / 18014398509481984) = (5404319552844595 / 18014398509481984)
   \<and> distance64 (5404319552844595 / 18014398509481984) 0
        \<lparr>obj_mesh = Some (0, 0), obj_type = ''barrel'', obj_radius = Some 0.5, obj_x = Some 0, obj_z = Some 0\<rparr> = round64 0.3
   \<and> (\<exists>r. checkObjectCollision64 (Some [\<lparr>obj_mesh = Some (0, 0), obj_type = ''barrel'', obj_radius = Some 0.5, obj_x = Some 0, obj_z = Some 0\<rparr>])
            (5404319552844595 / 18014398509481984) 0 = Some r
        \<and> collision r
        \<and> \<bar>resultX r - 11 / 3 * (5404319552844595 / 18014398509481984)\<bar> \<le> 4 / 10 ^ 16
        \<and> \<bar>resultZ r\<bar> \<le> 4 / 10 ^ 16
        \<and> \<bar>sqrt (resultX r * resultX r + resultZ r * resultZ r) - 1.1\<bar> \<le> 1 / 10 ^ 15)"
proof -
  let ?obj = "\<lparr>obj_mesh = Some (0, 0), obj_type = ''barrel'', obj_radius = Some 0.5, obj_x = Some 0, obj_z = Some 0\<rparr>"
  have h1: "round64 (5404319552844595 / 18014398509481984) = (5404319552844595 / 18014398509481984)"
    using round64_binade [of 54 "(5404319552844595 / 18014398509481984)"] by (simp add: roundEven_def )
  have h2: "round64 (3 / 10) = (5404319552844595 / 18014398509481984)"
    using round64_binade [of 54 "(3 / 10)"] by (simp add: roundEven_def )
  have h3: "fsub (5404319552844595 / 18014398509481984) 0 = (5404319552844595 / 18014398509481984)"
    using round64_binade [of 54 "(5404319552844595 / 18014398509481984)"] by (simp add: roundEven_def fsub_def)
  have h4: "fmul (5404319552844595 / 18014398509481984) (5404319552844595 / 18014398509481984) = (3242591731706757 / 36028797018963968)"
    using round64_binade [of 56 "(29206669829258403248756220714025 / 324518553658426726783156020576256)"] by (simp add: roundEven_def fmul_def)
  have h5: "fadd (3242591731706757 / 36028797018963968) 0 = (3242591731706757 / 36028797018963968)"
    using round64_binade [of 56 "(3242591731706757 / 36028797018963968)"] by (simp add: roundEven_def fadd_def)
  have h6: "fsqrt (3242591731706757 / 36028797018963968) = (5404319552844595 / 18014398509481984)"
    using fsqrt_eval [of 5404319552844595 54 "(3242591731706757 / 36028797018963968)"] by (simp add: power2_eq_square)
  have z: "round64 0 = 0" by (simp add: round64_def)
  have m0: "fmul 0 0 = 0" by (simp add: fmul_def round64_def)
  have s0: "fsub 0 0 = 0" by (simp add: fsub_def round64_def)
  have d: "distance64 (5404319552844595 / 18014398509481984) 0 ?obj = round64 0.3"
    by (simp add: distance64_def objX_def objZ_def Let_def m0 s0 h1 h2 h3 h4 h5 h6)
  show ?thesis
    using checkObjectCollision_single_obstacle [of ?obj "(5404319552844595 / 18014398509481984)" 0, OF _ _ _ _ h1 z d] h1 d
    by simp
qed

section \<open>The motion integrator keeps the speeds bounded\<close>

lemma resolveCollisions_total: "\<exists>r. resolveCollisions sceneRef newX newZ = Some r"
  using checkObjectCollision_total [of sceneRef newX newZ]
  by (auto simp: resolveCollisions_def Let_def)

lemma targetVelocity_cases:
  "targetVelocity a = 0 \<or> targetVelocity a = 2.2 \<or> targetVelocity a = - 1.32"
  by (simp add: targetVelocity_def maxSpeed_def Let_def)

lemma stepVelocity_bound:
  assumes "0 \<le> delta" "delta \<le> 0.1" "\<bar>v\<bar> \<le> maxSpeed"
  shows "\<bar>stepVelocity a delta v\<bar> \<le> maxSpeed"
proof -
  have v: "\<bar>v\<bar> \<le> 2.2" using assms(3) by (simp add: maxSpeed_def)
  consider (coast) "targetVelocity a = 0" | (fwd) "targetVelocity a = 2.2"
    | (bwd) "targetVelocity a = - 1.32"
    using targetVelocity_cases by blast
  then have "\<bar>stepVelocity a delta v\<bar> \<le> 2.2"
  proof cases
    case coast
    have "\<bar>v - sgn v * 3 * delta\<bar> \<le> 2.2"
      using assms(1,2) v by (cases "v < 0"; cases "v = 0") (simp_all add: sgn_if abs_if)
    then show ?thesis by (simp add: stepVelocity_def coast friction_def)
  next
    case fwd
    show ?thesis using v assms(1,2)
      by (simp add: stepVelocity_def fwd Let_def acceleration_def deceleration_def sgn_if abs_if)
  next
    case bwd
    show ?thesis using v assms(1,2)
      by (simp add: stepVelocity_def bwd Let_def acceleration_def deceleration_def sgn_if abs_if)
  qed
  then show ?thesis by (simp add: maxSpeed_def)
qed

lemma targetAngularVel_bound:
  assumes "\<bar>v\<bar> \<le> maxSpeed"
  shows "\<bar>targetAngularVel a v\<bar> \<le> maxTurnSpeed"
  using assms
  by (auto simp: targetAngularVel_def maxSpeed_def maxTurnSpeed_def Let_def abs_if split: if_splits)

lemma stepAngularVelocity_bound:
  assumes "0 \<le> delta" "delta \<le> 0.1" "\<bar>v\<bar> \<le> maxSpeed" "\<bar>w\<bar> \<le> maxTurnSpeed"
  shows "\<bar>stepAngularVelocity a delta v w\<bar> \<le> maxTurnSpeed"
proof -
  let ?t = "targetAngularVel a v"
  have t: "\<bar>?t\<bar> \<le> maxTurnSpeed" using assms(3) by (rule targetAngularVel_bound)
  have c: "0 \<le> 6 * delta" "6 * delta \<le> 1" using assms by simp_all
  have "w + (?t - w) * turnAccel * delta = (1 - 6 * delta) * w + (6 * delta) * ?t"
    by (simp add: turnAccel_def algebra_simps)
  moreover have "\<bar>(1 - 6 * delta) * w + (6 * delta) * ?t\<bar>
      \<le> \<bar>(1 - 6 * delta) * w\<bar> + \<bar>(6 * delta) * ?t\<bar>"
    by (rule abs_triangle_ineq)
  moreover have "\<bar>(1 - 6 * delta) * w\<bar> = (1 - 6 * delta) * \<bar>w\<bar>"
    using c by (simp add: abs_mult)
  moreover have "\<bar>(6 * delta) * ?t\<bar> = (6 * delta) * \<bar>?t\<bar>"
    using c by (simp add: abs_mult)
  moreover have "(1 - 6 * delta) * \<bar>w\<bar> \<le> (1 - 6 * delta) * maxTurnSpeed"
    using c assms(4) by (intro mult_left_mono) simp_all
  moreover have "(6 * delta) * \<bar>?t\<bar> \<le> (6 * delta) * maxTurnSpeed"
    using c t by (intro mult_left_mono) simp_all
  moreover have "(1 - 6 * delta) * maxTurnSpeed + (6 * delta) * maxTurnSpeed = maxTurnSpeed"
    by (simp add: algebra_simps)
  ultimately have A: "\<bar>w + (?t - w) * turnAccel * delta\<bar> \<le> maxTurnSpeed"
    by linarith
  have d: "0 \<le> 1 - 8 * delta" "1 - 8 * delta \<le> 1" using assms by simp_all
  have "\<bar>w * (1 - turnFriction * delta)\<bar> = \<bar>w\<bar> * (1 - 8 * delta)"
    using d by (simp add: turnFriction_def abs_mult)
  also have "\<dots> \<le> \<bar>w\<bar> * 1" using d by (intro mult_left_mono) simp_all
  finally have B: "\<bar>w * (1 - turnFriction * delta)\<bar> \<le> maxTurnSpeed" using assms(4) by simp
  have C: "(0::real) \<le> maxTurnSpeed" by (simp add: maxTurnSpeed_def)
  show ?thesis using A B C by (simp add: stepAngularVelocity_def)
qed

lemma clamp_abs: "0 \<le> m \<Longrightarrow> \<bar>max (- m) (min m (y::real))\<bar> \<le> m"
  by (simp add: abs_le_iff)


lemma updateMovement_total: "\<exists>state'. updateMovement sceneRef a delta state = Some state'"
proof -
  obtain r where "resolveCollisions sceneRef
      (pos_x state + sin (rotation state + stepAngularVelocity a delta
          (stepVelocity a delta (velocity state)) (angularVelocity state) * delta)
        * (stepVelocity a delta (velocity state) * delta))
      (pos_z state + cos (rotation state + stepAngularVelocity a delta
          (stepVelocity a delta (velocity state)) (angularVelocity state) * delta)
        * (stepVelocity a delta (velocity state) * delta)) = Some r"
    using resolveCollisions_total by blast
  then show ?thesis by (simp add: updateMovement_def Let_def)
qed

lemma updateMovement_velocity:
  assumes "updateMovement sceneRef a delta state = Some state'"
  shows "velocity state' = stepVelocity a delta (velocity state)
       \<or> velocity state' = stepVelocity a delta (velocity state) * 0.5"
  using assms
  by (auto simp: updateMovement_def afterCollision_def Let_def split: option.splits)

lemma updateMovement_angularVelocity:
  assumes "updateMovement sceneRef a delta state = Some state'"
  shows "angularVelocity state' = stepAngularVelocity a delta
      (stepVelocity a delta (velocity state)) (angularVelocity state)"
  using assms
  by (auto simp: updateMovement_def afterCollision_def Let_def split: option.splits)

lemma updateMovement_headRotY:
  assumes "updateMovement sceneRef a delta state = Some state'"
  shows "headRotY state' = max (- headMaxRotation) (min headMaxRotation
      (headRotY state + stepHeadAngularVel a delta (headAngularVel state) * delta))"
  using assms
  by (auto simp: updateMovement_def afterCollision_def Let_def split: option.splits)

lemma updateMovement_headAngularVel:
  assumes "updateMovement sceneRef a delta state = Some state'"
  shows "headAngularVel state' = stepHeadAngularVel a delta (headAngularVel state)"
  using assms
  by (auto simp: updateMovement_def afterCollision_def Let_def split: option.splits)

lemma frameDelta_range:
  "lastTime \<le> currentTime \<Longrightarrow>
    0 \<le> frameDelta currentTime lastTime \<and> frameDelta currentTime lastTime \<le> 0.1"
  by (simp add: frameDelta_def)

text \<open>
  C1. From every state with \<open>|velocity| \<le> maxSpeed\<close>, \<open>|angularVelocity| \<le> maxTurnSpeed\<close>
  and \<open>|headRotY| \<le> headMaxRotation\<close>, for every setting of the input flags, every obstacle
  list and every elapsed time \<open>dt \<ge> 0\<close> clamped to at most 0.1, one integrator step returns
  a state, and that state satisfies the same three bounds (2.2, 2.2 and 1.2).
\<close>

theorem updateMovement_keeps_bounds:
  assumes "0 \<le> dt"
    and "\<bar>velocity state\<bar> \<le> maxSpeed"
    and "\<bar>angularVelocity state\<bar> \<le> maxTurnSpeed"
    and "\<bar>headRotY state\<bar> \<le> headMaxRotation"
  shows "\<exists>state'. updateMovement sceneRef a (min dt 0.1) state = Some state'
     \<and> \<bar>velocity state'\<bar> \<le> maxSpeed \<and> maxSpeed = 2.2
     \<and> \<bar>angularVelocity state'\<bar> \<le> maxTurnSpeed \<and> maxTurnSpeed = 2.2
     \<and> \<bar>headRotY state'\<bar> \<le> headMaxRotation \<and> headMaxRotation = 1.2"
proof -
  let ?d = "min dt 0.1"
  have d: "0 \<le> ?d" "?d \<le> 0.1" using assms(1) by simp_all
  obtain state' where s: "updateMovement sceneRef a ?d state = Some state'"
    using updateMovement_total by blast
  let ?v1 = "stepVelocity a ?d (velocity state)"
  have v1: "\<bar>?v1\<bar> \<le> maxSpeed"
    using d assms(2) by (rule stepVelocity_bound)
  have "0 \<le> maxSpeed" by (simp add: maxSpeed_def)
  then have "\<bar>?v1 * 0.5\<bar> \<le> maxSpeed" using v1 by simp
  then have v: "\<bar>velocity state'\<bar> \<le> maxSpeed"
    using v1 updateMovement_velocity [OF s] by auto
  have w: "\<bar>angularVelocity state'\<bar> \<le> maxTurnSpeed"
    unfolding updateMovement_angularVelocity [OF s]
    using d v1 assms(3) by (rule stepAngularVelocity_bound)
  have h: "\<bar>headRotY state'\<bar> \<le> headMaxRotation"
    unfolding updateMovement_headRotY [OF s]
    by (rule clamp_abs) (simp add: headMaxRotation_def)
  show ?thesis
    using s v w h by (simp add: maxSpeed_def maxTurnSpeed_def headMaxRotation_def)
qed

theorem updateMovement_keeps_bounds_witness:
  "(0::real) \<le> 1
   \<and> \<bar>velocity \<lparr>pos_x = 0, pos_z = 0, rotation = 0, velocity = 2.2, angularVelocity = - 2.2,
        headRotY = 1.2, headAngularVel = 2.5, wheelRotation = 0, bodyTilt = 0, bodyLean = 0,
        suspensionOffset = 0, suspensionVelocity = 0\<rparr>\<bar> \<le> maxSpeed
   \<and> \<bar>angularVelocity \<lparr>pos_x = 0, pos_z = 0, rotation = 0, velocity = 2.2, angularVelocity = - 2.2,
        headRotY = 1.2, headAngularVel = 2.5, wheelRotation = 0, bodyTilt = 0, bodyLean = 0,
        suspensionOffset = 0, suspensionVelocity = 0\<rparr>\<bar> \<le> maxTurnSpeed
   \<and> \<bar>headRotY \<lparr>pos_x = 0, pos_z = 0, rotation = 0, velocity = 2.2, angularVelocity = - 2.2,
        headRotY = 1.2, headAngularVel = 2.5, wheelRotation = 0, bodyTilt = 0, bodyLean = 0,
        suspensionOffset = 0, suspensionVelocity = 0\<rparr>\<bar> \<le> headMaxRotation
   \<and> (\<exists>state'. updateMovement (Some warehouse)
        \<lparr>forward = True, backward = False, turnLeft = True, turnRight = False,
          headLeft = True, headRight = False\<rparr> (min 1 0.1)
        \<lparr>pos_x = 0, pos_z = 0, rotation = 0, velocity = 2.2, angularVelocity = - 2.2,
          headRotY = 1.2, headAngularVel = 2.5, wheelRotation = 0, bodyTilt = 0, bodyLean = 0,
          suspensionOffset = 0, suspensionVelocity = 0\<rparr> = Some state'
      \<and> \<bar>velocity state'\<bar> \<le> 2.2 \<and> \<bar>angularVelocity state'\<bar> \<le> 2.2
      \<and> \<bar>headRotY state'\<bar> \<le> 1.2)"
  using updateMovement_keeps_bounds [of 1
      "\<lparr>pos_x = 0, pos_z = 0, rotation = 0, velocity = 2.2, angularVelocity = - 2.2,
        headRotY = 1.2, headAngularVel = 2.5, wheelRotation = 0, bodyTilt = 0, bodyLean = 0,
        suspensionOffset = 0, suspensionVelocity = 0\<rparr>"
      "Some warehouse"
      "\<lparr>forward = True, backward = False, turnLeft = True, turnRight = False,
        headLeft = True, headRight = False\<rparr>"]
  by (auto simp: maxSpeed_def maxTurnSpeed_def headMaxRotation_def)

section \<open>Points clear of every obstacle\<close>

lemma sqrt_not_less: "0 \<le> m \<Longrightarrow> m * m \<le> a \<Longrightarrow> \<not> sqrt a < m"
  by (metis not_less real_le_rsqrt power2_eq_square)

lemma collisionLoop_clear:
  "clearOf newX newZ objs \<Longrightarrow> collisionLoop newX newZ objs acc = Some acc"
proof (induction objs)
  case Nil
  show ?case by simp
next
  case (Cons obj objs)
  have "collisionBody newX newZ obj acc = Some acc"
    using Cons.prems by (auto simp: collisionBody_def distance_def Let_def dest: sqrt_not_less)
  then show ?case using Cons by simp
qed

lemma resolveCollisions_clear:
  assumes "clearOf newX newZ objs" and "- 8.4 \<le> newX" and "newX \<le> 8.4"
    and "- 8.4 \<le> newZ" and "newZ \<le> 10"
  shows "resolveCollisions (Some objs) newX newZ
    = Some \<lparr>resultX = newX, resultZ = newZ, collision = False\<rparr>"
  using assms
  by (simp add: resolveCollisions_def checkObjectCollision_def collisionLoop_clear
      checkWallCollision_def ROBOT_RADIUS_def COLLISION_PADDING_def Let_def)



section \<open>Reversing at speed\<close>










section \<open>Coasting with no input\<close>

lemma warehouse_clear_origin: "clearOf 0 0 warehouse"
  by (simp add: warehouse_def minDist_def objX_def objZ_def objR_def ROBOT_RADIUS_def COLLISION_PADDING_def)

lemma warehouse_clear_back: "clearOf 0 (- (3 / 8192)) warehouse"
  by (simp add: warehouse_def minDist_def objX_def objZ_def objR_def ROBOT_RADIUS_def COLLISION_PADDING_def)

lemmas idle_simps = updateMovement_def afterCollision_def stepVelocity_def targetVelocity_def
  stepAngularVelocity_def targetAngularVel_def stepHeadAngularVel_def targetHeadVel_def
  initialActions_def Let_def

lemma jitter_step:
  assumes "jitter s"
  shows "\<exists>s'. updateMovement (Some warehouse) initialActions (1 / 64) s = Some s' \<and> jitter s'
    \<and> (suspensionOffset s \<noteq> 0 \<or> suspensionOffset s' \<noteq> 0)"
proof -
  have r0: "resolveCollisions (Some warehouse) 0 0
      = Some \<lparr>resultX = 0, resultZ = 0, collision = False\<rparr>"
    by (rule resolveCollisions_clear [OF warehouse_clear_origin]) simp_all
  have r1: "resolveCollisions (Some warehouse) 0 (- (3 / 8192))
      = Some \<lparr>resultX = 0, resultZ = - (3 / 8192), collision = False\<rparr>"
    by (rule resolveCollisions_clear [OF warehouse_clear_back]) simp_all
  have susp: "suspensionVelocity s \<noteq> 0 \<or> suspensionOffset s \<noteq> 0"
    using assms by (simp add: jitter_def)
  from assms consider
      (fwd) "pos_x s = 0" "rotation s = 0" "angularVelocity s = 0" "0 < headAngularVel s"
        "velocity s = 3 / 128" "pos_z s = 0"
    | (bwd) "pos_x s = 0" "rotation s = 0" "angularVelocity s = 0" "0 < headAngularVel s"
        "velocity s = - (3 / 128)" "pos_z s = - (3 / 8192)"
    by (auto simp: jitter_def)
  then show ?thesis
  proof cases
    case fwd
    show ?thesis
      using fwd(4) susp
      by (auto simp add: fwd(1,2,3,5,6) idle_simps friction_def headFriction_def r1 jitter_def
          suspensionStiffness_def suspensionDamping_def bumpForce_def)
  next
    case bwd
    show ?thesis
      using bwd(4) susp
      by (auto simp add: bwd(1,2,3,5,6) idle_simps friction_def headFriction_def r0 jitter_def
          suspensionStiffness_def suspensionDamping_def bumpForce_def)
  qed
qed

lemma jitter_run:
  "jitter s \<Longrightarrow> \<exists>s'. runFrames (Some warehouse) initialActions (1 / 64) n s = Some s' \<and> jitter s'"
proof (induction n arbitrary: s)
  case 0
  then show ?case by simp
next
  case (Suc n)
  obtain s1 where s1: "updateMovement (Some warehouse) initialActions (1 / 64) s = Some s1" "jitter s1"
    using jitter_step [OF Suc.prems] by blast
  show ?case using Suc.IH [OF s1(2)] s1(1) by simp
qed

lemma runFrames_total: "\<exists>s'. runFrames sceneRef a delta n s = Some s'"
proof (induction n arbitrary: s)
  case 0
  show ?case by simp
next
  case (Suc n)
  obtain s1 where "updateMovement sceneRef a delta s = Some s1"
    using updateMovement_total by blast
  then show ?case using Suc.IH [of s1] by simp
qed

lemma runFrames_Suc_last:
  "runFrames sceneRef a delta (Suc n) s =
    (case runFrames sceneRef a delta n s of None \<Rightarrow> None
     | Some s' \<Rightarrow> updateMovement sceneRef a delta s')"
proof (induction n arbitrary: s)
  case 0
  show ?case by (simp split: option.splits)
next
  case (Suc n)
  show ?case
  proof (cases "updateMovement sceneRef a delta s")
    case None
    then show ?thesis by simp
  next
    case (Some s1)
    then show ?thesis using Suc.IH [of s1] by simp
  qed
qed

text \<open>
  C2 as claimed fails. In the middle of the warehouse, with no flag set and
  \<open>delta = 1/64\<close>, a robot that starts with velocity \<open>3/128\<close>, head angular velocity 1 and
  suspension offset \<open>1/64\<close> has, after every number of steps, a nonzero velocity (the
  friction step of \<open>3/64\<close> carries it from \<open>3/128\<close> to \<open>- 3/128\<close> and back, never into the
  window \<open>|v| \<le> 0.01\<close> where it is set to 0; all these values are binary fractions) and a
  nonzero head angular velocity (it is multiplied by \<open>1 - 6/64\<close> in every step and is never
  set to 0); and its suspension offset is never 0 in two successive steps (the spring-damper
  update has no snap to zero either).
\<close>

theorem coasting_counterexample:
  "\<forall>n. \<exists>s s'. runFrames (Some warehouse) initialActions (1 / 64) n
        \<lparr>pos_x = 0, pos_z = 0, rotation = 0, velocity = 3 / 128, angularVelocity = 0,
          headRotY = 0, headAngularVel = 1, wheelRotation = 0, bodyTilt = 0, bodyLean = 0,
          suspensionOffset = 1 / 64, suspensionVelocity = 0\<rparr> = Some s
      \<and> runFrames (Some warehouse) initialActions (1 / 64) (Suc n)
        \<lparr>pos_x = 0, pos_z = 0, rotation = 0, velocity = 3 / 128, angularVelocity = 0,
          headRotY = 0, headAngularVel = 1, wheelRotation = 0, bodyTilt = 0, bodyLean = 0,
          suspensionOffset = 1 / 64, suspensionVelocity = 0\<rparr> = Some s'
      \<and> velocity s \<noteq> 0 \<and> headAngularVel s \<noteq> 0
      \<and> (suspensionOffset s \<noteq> 0 \<or> suspensionOffset s' \<noteq> 0)"
proof
  fix n
  let ?S = "\<lparr>pos_x = 0, pos_z = 0, rotation = 0, velocity = 3 / 128, angularVelocity = 0,
          headRotY = 0, headAngularVel = 1, wheelRotation = 0, bodyTilt = 0, bodyLean = 0,
          suspensionOffset = 1 / 64, suspensionVelocity = (0::real)\<rparr>"
  have "jitter ?S"
    by (simp add: jitter_def)
  then obtain s where s: "runFrames (Some warehouse) initialActions (1 / 64) n ?S = Some s"
      "jitter s"
    using jitter_run by blast
  obtain s' where s': "updateMovement (Some warehouse) initialActions (1 / 64) s = Some s'"
      "suspensionOffset s \<noteq> 0 \<or> suspensionOffset s' \<noteq> 0"
    using jitter_step [OF s(2)] by blast
  have "runFrames (Some warehouse) initialActions (1 / 64) (Suc n) ?S = Some s'"
    unfolding runFrames_Suc_last using s(1) s'(1) by simp
  then show "\<exists>s s'. runFrames (Some warehouse) initialActions (1 / 64) n ?S = Some s
      \<and> runFrames (Some warehouse) initialActions (1 / 64) (Suc n) ?S = Some s'
      \<and> velocity s \<noteq> 0 \<and> headAngularVel s \<noteq> 0
      \<and> (suspensionOffset s \<noteq> 0 \<or> suspensionOffset s' \<noteq> 0)"
    using s s'(2) by (auto simp: jitter_def)
qed


lemma idle_angularVelocity:
  assumes "updateMovement sceneRef initialActions delta s = Some s'"
  shows "angularVelocity s' =
    (if \<bar>angularVelocity s\<bar> > 0.01 then angularVelocity s * (1 - 8 * delta) else 0)"
  unfolding updateMovement_angularVelocity [OF assms]
  by (simp add: stepAngularVelocity_def targetAngularVel_def initialActions_def turnFriction_def)

lemma idle_headAngularVel:
  assumes "updateMovement sceneRef initialActions delta s = Some s'"
  shows "headAngularVel s' = headAngularVel s * (1 - 6 * delta)"
  unfolding updateMovement_headAngularVel [OF assms]
  by (simp add: stepHeadAngularVel_def targetHeadVel_def initialActions_def headFriction_def)

lemma idle_at_rest:
  assumes "updateMovement sceneRef initialActions delta s = Some s'"
    and "\<bar>velocity s\<bar> \<le> 0.01"
  shows "velocity s' = 0"
    and "suspensionVelocity s' = (1 - 8 * delta) * suspensionVelocity s
          - 80 * delta * suspensionOffset s"
    and "suspensionOffset s' = suspensionOffset s + suspensionVelocity s' * delta"
  using assms
  by (auto simp: idle_simps suspensionStiffness_def suspensionDamping_def algebra_simps
      split: option.splits)


lemma suspensionEnergy_step:
  assumes "updateMovement sceneRef initialActions delta s = Some s'"
    and "\<bar>velocity s\<bar> \<le> 0.01"
  shows "suspensionEnergy delta s' = (1 - 8 * delta) * suspensionEnergy delta s"
  unfolding suspensionEnergy_def idle_at_rest(3) [OF assms] idle_at_rest(2) [OF assms]
  by (simp add: power2_eq_square algebra_simps)

lemma suspensionEnergy_lower:
  assumes "0 < delta" and "delta \<le> 0.1"
  shows "64 * (suspensionOffset s)\<^sup>2 \<le> suspensionEnergy delta s"
proof -
  define a where "a = 1 - 8 * delta"
  define b where "b = 1 - 10 * delta"
  define p where "p = suspensionVelocity s"
  define q where "q = suspensionOffset s"
  have a: "0 < a" using assms by (simp add: a_def)
  have "a - b\<^sup>2 = delta * (12 - 100 * delta)"
    by (simp add: a_def b_def power2_eq_square algebra_simps)
  moreover have "0 \<le> delta * (12 - 100 * delta)"
    using assms by (intro mult_nonneg_nonneg) simp_all
  ultimately have ab: "0 \<le> a - b\<^sup>2" by simp
  have "a * (a * p\<^sup>2 + 8 * b * p * q + 16 * q\<^sup>2) = (a * p + 4 * b * q)\<^sup>2 + 16 * (a - b\<^sup>2) * q\<^sup>2"
    by (simp add: power2_eq_square algebra_simps)
  moreover have "0 \<le> (a * p + 4 * b * q)\<^sup>2 + 16 * (a - b\<^sup>2) * q\<^sup>2"
    using ab by (intro add_nonneg_nonneg mult_nonneg_nonneg) simp_all
  ultimately have "0 \<le> a * (a * p\<^sup>2 + 8 * b * p * q + 16 * q\<^sup>2)" by simp
  then have "0 \<le> a * p\<^sup>2 + 8 * b * p * q + 16 * q\<^sup>2"
    using a by (simp add: zero_le_mult_iff)
  then show ?thesis
    by (simp add: suspensionEnergy_def a_def b_def p_def q_def)
qed

lemma rest_run:
  assumes "\<bar>velocity s\<bar> \<le> 0.01"
    and "runFrames sceneRef initialActions delta n s = Some s'"
  shows "\<bar>velocity s'\<bar> \<le> 0.01 \<and> (0 < n \<longrightarrow> velocity s' = 0)
    \<and> suspensionEnergy delta s' = (1 - 8 * delta) ^ n * suspensionEnergy delta s"
  using assms(2)
proof (induction n arbitrary: s')
  case 0
  then show ?case using assms(1) by simp
next
  case (Suc n)
  obtain s1 where s1: "runFrames sceneRef initialActions delta n s = Some s1"
    using runFrames_total by blast
  have step: "updateMovement sceneRef initialActions delta s1 = Some s'"
    using Suc.prems [unfolded runFrames_Suc_last] s1 by simp
  have v1: "\<bar>velocity s1\<bar> \<le> 0.01" using Suc.IH [OF s1] by simp
  have e1: "suspensionEnergy delta s1 = (1 - 8 * delta) ^ n * suspensionEnergy delta s"
    using Suc.IH [OF s1] by simp
  show ?case
    using idle_at_rest(1) [OF step v1] suspensionEnergy_step [OF step v1] e1 by simp
qed

lemma head_run:
  assumes "runFrames sceneRef initialActions delta n s = Some s'"
  shows "headAngularVel s' = headAngularVel s * (1 - 6 * delta) ^ n"
  using assms
proof (induction n arbitrary: s')
  case 0
  then show ?case by simp
next
  case (Suc n)
  obtain s1 where s1: "runFrames sceneRef initialActions delta n s = Some s1"
    using runFrames_total by blast
  have step: "updateMovement sceneRef initialActions delta s1 = Some s'"
    using Suc.prems [unfolded runFrames_Suc_last] s1 by simp
  show ?case using idle_headAngularVel [OF step] Suc.IH [OF s1] by simp
qed

lemma turn_run:
  assumes "runFrames sceneRef initialActions delta n s = Some s'"
  shows "angularVelocity s' = 0 \<or> angularVelocity s' = angularVelocity s * (1 - 8 * delta) ^ n"
  using assms
proof (induction n arbitrary: s')
  case 0
  then show ?case by simp
next
  case (Suc n)
  obtain s1 where s1: "runFrames sceneRef initialActions delta n s = Some s1"
    using runFrames_total by blast
  have step: "updateMovement sceneRef initialActions delta s1 = Some s'"
    using Suc.prems [unfolded runFrames_Suc_last] s1 by simp
  show ?case using idle_angularVelocity [OF step] Suc.IH [OF s1] by auto
qed

lemma turn_small_run:
  assumes "\<bar>angularVelocity s\<bar> \<le> 0.01"
    and "runFrames sceneRef initialActions delta n s = Some s'"
  shows "\<bar>angularVelocity s'\<bar> \<le> 0.01 \<and> (0 < n \<longrightarrow> angularVelocity s' = 0)"
  using assms(2)
proof (induction n arbitrary: s')
  case 0
  then show ?case using assms(1) by simp
next
  case (Suc n)
  obtain s1 where s1: "runFrames sceneRef initialActions delta n s = Some s1"
    using runFrames_total by blast
  have step: "updateMovement sceneRef initialActions delta s1 = Some s'"
    using Suc.prems [unfolded runFrames_Suc_last] s1 by simp
  have "\<bar>angularVelocity s1\<bar> \<le> 0.01" using Suc.IH [OF s1] by simp
  then show ?case using idle_angularVelocity [OF step] by simp
qed

lemma runFrames_add:
  "runFrames sceneRef a delta (m + n) s =
    (case runFrames sceneRef a delta m s of None \<Rightarrow> None
     | Some s1 \<Rightarrow> runFrames sceneRef a delta n s1)"
proof (induction m arbitrary: s)
  case 0
  show ?case by simp
next
  case (Suc m)
  show ?case by (simp add: Suc.IH split: option.splits)
qed

lemma geometric_small:
  fixes b c e :: real
  assumes "0 \<le> b" and "b < 1" and "0 \<le> c" and "0 < e"
  shows "\<exists>N. \<forall>n\<ge>N. c * b ^ n < e"
proof -
  have "0 < e / (c + 1)" using assms by simp
  then obtain N where N: "b ^ N < e / (c + 1)"
    using real_arch_pow_inv [of "e / (c + 1)" b] assms(2) by blast
  have "c * b ^ n < e" if "N \<le> n" for n
  proof -
    have "b ^ n \<le> b ^ N" using that assms(1,2) by (intro power_decreasing) simp_all
    then have "c * b ^ n \<le> c * b ^ N" using assms(3) by (rule mult_left_mono)
    also have "\<dots> \<le> (c + 1) * b ^ N" using assms(1) by (simp add: algebra_simps)
    also have "\<dots> < e" using N assms(3) by (simp add: pos_less_divide_eq algebra_simps)
    finally show ?thesis .
  qed
  then show ?thesis by blast
qed


lemma turn_eventually_zero:
  assumes "0 < delta" and "delta \<le> 0.1"
  shows "\<exists>N. \<forall>n\<ge>N. \<forall>s'. runFrames sceneRef initialActions delta n s = Some s'
      \<longrightarrow> angularVelocity s' = 0"
proof -
  have a: "0 \<le> 1 - 8 * delta" "1 - 8 * delta < 1" using assms by simp_all
  obtain N where N: "\<forall>n\<ge>N. \<bar>angularVelocity s\<bar> * (1 - 8 * delta) ^ n < 0.01"
    using geometric_small [OF a, of "\<bar>angularVelocity s\<bar>" "0.01"] by auto
  obtain s1 where s1: "runFrames sceneRef initialActions delta N s = Some s1"
    using runFrames_total by blast
  have "\<bar>angularVelocity s * (1 - 8 * delta) ^ N\<bar> < 0.01"
    using N a(1) by (simp add: abs_mult)
  then have small: "\<bar>angularVelocity s1\<bar> \<le> 0.01"
    using turn_run [OF s1] by auto
  have "angularVelocity s' = 0"
    if "Suc N \<le> n" and r: "runFrames sceneRef initialActions delta n s = Some s'" for n s'
  proof -
    have n: "n = N + (n - N)" and pos: "0 < n - N" using that(1) by simp_all
    have "runFrames sceneRef initialActions delta (n - N) s1 = Some s'"
      using r s1 runFrames_add [of sceneRef initialActions delta N "n - N" s] n by simp
    then show ?thesis using turn_small_run [OF small] pos by blast
  qed
  then show ?thesis by blast
qed

lemma head_eventually_small:
  assumes "0 < delta" and "delta \<le> 0.1" and "0 < eps"
  shows "\<exists>N. \<forall>n\<ge>N. \<forall>s'. runFrames sceneRef initialActions delta n s = Some s'
      \<longrightarrow> \<bar>headAngularVel s'\<bar> < eps"
proof -
  have b: "0 \<le> 1 - 6 * delta" "1 - 6 * delta < 1" using assms by simp_all
  obtain N where N: "\<forall>n\<ge>N. \<bar>headAngularVel s\<bar> * (1 - 6 * delta) ^ n < eps"
    using geometric_small [OF b, of "\<bar>headAngularVel s\<bar>" eps] assms(3) by auto
  have "\<bar>headAngularVel s'\<bar> < eps"
    if "N \<le> n" and r: "runFrames sceneRef initialActions delta n s = Some s'" for n s'
    using N that(1) b(1) by (simp add: head_run [OF r] abs_mult)
  then show ?thesis by blast
qed

lemma suspension_eventually_small:
  assumes "0 < delta" and "delta \<le> 0.1" and "0 < eps" and "\<bar>velocity s\<bar> \<le> 0.01"
  shows "\<exists>N. \<forall>n\<ge>N. \<forall>s'. runFrames sceneRef initialActions delta n s = Some s'
      \<longrightarrow> velocity s' = 0 \<and> \<bar>suspensionOffset s'\<bar> < eps"
proof -
  have a: "0 \<le> 1 - 8 * delta" "1 - 8 * delta < 1" using assms by simp_all
  have e0: "0 \<le> suspensionEnergy delta s"
  proof -
    have "0 \<le> 64 * (suspensionOffset s)\<^sup>2" by simp
    then show ?thesis using suspensionEnergy_lower [OF assms(1,2), of s] by linarith
  qed
  have "0 < 64 * eps\<^sup>2" using assms(3) by simp
  then obtain N where N: "\<forall>n\<ge>N. suspensionEnergy delta s * (1 - 8 * delta) ^ n < 64 * eps\<^sup>2"
    using geometric_small [OF a e0] by blast
  have "velocity s' = 0 \<and> \<bar>suspensionOffset s'\<bar> < eps"
    if "Suc N \<le> n" and r: "runFrames sceneRef initialActions delta n s = Some s'" for n s'
  proof -
    have "0 < n" using that(1) by simp
    then have v: "velocity s' = 0" using rest_run [OF assms(4) r] by blast
    have "64 * (suspensionOffset s')\<^sup>2 \<le> suspensionEnergy delta s'"
      by (rule suspensionEnergy_lower [OF assms(1,2)])
    also have "\<dots> = suspensionEnergy delta s * (1 - 8 * delta) ^ n"
      using rest_run [OF assms(4) r] by (simp only: mult.commute)
    also have "\<dots> < 64 * eps\<^sup>2"
    proof -
      have "N \<le> n" using that(1) by simp
      then show ?thesis using N by blast
    qed
    finally have "\<bar>suspensionOffset s'\<bar>\<^sup>2 < eps\<^sup>2" by simp
    then have "\<bar>suspensionOffset s'\<bar> < eps"
      using power2_less_imp_less [of "\<bar>suspensionOffset s'\<bar>" eps] assms(3) by simp
    then show ?thesis using v by simp
  qed
  then show ?thesis by blast
qed

lemma idle_velocity_step:
  assumes "updateMovement sceneRef initialActions delta s = Some s'"
    and "0 < delta" and "delta \<le> 1 / 150"
  shows "\<bar>velocity s'\<bar> \<le> 0.01 \<or> \<bar>velocity s'\<bar> \<le> \<bar>velocity s\<bar> - 3 * delta"
proof -
  let ?v1 = "stepVelocity initialActions delta (velocity s)"
  have v1: "\<bar>?v1\<bar> \<le> 0.01 \<or> \<bar>?v1\<bar> \<le> \<bar>velocity s\<bar> - 3 * delta"
    using assms(2,3)
    by (simp add: stepVelocity_def targetVelocity_def initialActions_def friction_def
        sgn_if abs_if)
  have "\<bar>velocity s'\<bar> \<le> \<bar>?v1\<bar>"
    using updateMovement_velocity [OF assms(1)] by auto
  then show ?thesis using v1 by linarith
qed

lemma window_reached:
  assumes "0 < delta" and "delta \<le> 1 / 150"
  shows "\<exists>m s1. runFrames sceneRef initialActions delta m s = Some s1 \<and> \<bar>velocity s1\<bar> \<le> 0.01"
proof -
  have run: "\<exists>s'. runFrames sceneRef initialActions delta n s = Some s'
      \<and> ((\<exists>m s1. runFrames sceneRef initialActions delta m s = Some s1 \<and> \<bar>velocity s1\<bar> \<le> 0.01)
          \<or> \<bar>velocity s'\<bar> \<le> \<bar>velocity s\<bar> - real n * (3 * delta))" for n
  proof (induction n)
    case 0
    show ?case by simp
  next
    case (Suc n)
    then obtain s1 where s1: "runFrames sceneRef initialActions delta n s = Some s1"
      and d: "(\<exists>m s1. runFrames sceneRef initialActions delta m s = Some s1 \<and> \<bar>velocity s1\<bar> \<le> 0.01)
          \<or> \<bar>velocity s1\<bar> \<le> \<bar>velocity s\<bar> - real n * (3 * delta)"
      by blast
    obtain s' where step: "updateMovement sceneRef initialActions delta s1 = Some s'"
      using updateMovement_total by blast
    have r: "runFrames sceneRef initialActions delta (Suc n) s = Some s'"
      unfolding runFrames_Suc_last using s1 step by simp
    show ?case
    proof (cases "\<exists>m s1. runFrames sceneRef initialActions delta m s = Some s1 \<and> \<bar>velocity s1\<bar> \<le> 0.01")
      case True
      then show ?thesis using r by blast
    next
      case False
      then have b: "\<bar>velocity s1\<bar> \<le> \<bar>velocity s\<bar> - real n * (3 * delta)" using d by blast
      have "\<not> \<bar>velocity s'\<bar> \<le> 0.01" using False r by blast
      then have "\<bar>velocity s'\<bar> \<le> \<bar>velocity s1\<bar> - 3 * delta"
        using idle_velocity_step [OF step assms] by blast
      then have "\<bar>velocity s'\<bar> \<le> \<bar>velocity s\<bar> - real (Suc n) * (3 * delta)"
        using b by (simp add: algebra_simps)
      then show ?thesis using r by blast
    qed
  qed
  obtain n :: nat where n: "\<bar>velocity s\<bar> / (3 * delta) < real n"
    using reals_Archimedean2 by blast
  have "\<bar>velocity s\<bar> < real n * (3 * delta)"
    using n assms(1) by (simp add: pos_divide_less_eq)
  then have "\<not> \<bar>velocity s'\<bar> \<le> \<bar>velocity s\<bar> - real n * (3 * delta)" for s'
    by linarith
  then show ?thesis using run [of n] by blast
qed

lemma settle_from_window:
  assumes "0 < delta" and "delta \<le> 0.1" and "0 < eps"
    and "runFrames sceneRef initialActions delta m s = Some s1" and "\<bar>velocity s1\<bar> \<le> 0.01"
  shows "\<exists>N. \<forall>n\<ge>N. \<forall>s'. runFrames sceneRef initialActions delta n s = Some s'
      \<longrightarrow> velocity s' = 0 \<and> \<bar>suspensionOffset s'\<bar> < eps"
proof -
  obtain N where N: "\<forall>n\<ge>N. \<forall>s'. runFrames sceneRef initialActions delta n s1 = Some s'
      \<longrightarrow> velocity s' = 0 \<and> \<bar>suspensionOffset s'\<bar> < eps"
    using suspension_eventually_small [OF assms(1,2,3,5)] by blast
  have "velocity s' = 0 \<and> \<bar>suspensionOffset s'\<bar> < eps"
    if "m + N \<le> n" and r: "runFrames sceneRef initialActions delta n s = Some s'" for n s'
  proof -
    have n: "n = m + (n - m)" and le: "N \<le> n - m" using that(1) by simp_all
    have "runFrames sceneRef initialActions delta (n - m) s1 = Some s'"
      using r assms(4) runFrames_add [of sceneRef initialActions delta m "n - m" s] n by simp
    then show ?thesis using N le by blast
  qed
  then show ?thesis by blast
qed

text \<open>
  C2, amended. With no flag set and a fixed \<open>delta\<close> in \<open>(0, 0.1]\<close>, from every starting
  state and in every scene: after sufficiently many steps the angular velocity is exactly 0
  and the head angular velocity is within any given \<open>eps > 0\<close> of 0. If moreover
  \<open>delta \<le> 1/150\<close> (the friction step \<open>3 * delta\<close> is then no longer than the window
  \<open>|v| \<le> 0.01\<close> is wide and cannot jump over it), or the velocity is within the window at
  the start or after some step, then after sufficiently many steps the velocity is exactly
  0 as well and the suspension offset is within \<open>eps\<close> of 0.
\<close>

theorem idle_settles:
  assumes "0 < delta" and "delta \<le> 0.1" and "0 < eps"
  shows "(\<exists>N. \<forall>n\<ge>N. \<exists>s'. runFrames sceneRef initialActions delta n s = Some s'
            \<and> angularVelocity s' = 0 \<and> \<bar>headAngularVel s'\<bar> < eps)
    \<and> (delta \<le> 1 / 150
        \<or> (\<exists>m s1. runFrames sceneRef initialActions delta m s = Some s1 \<and> \<bar>velocity s1\<bar> \<le> 0.01)
       \<longrightarrow>
         (\<exists>N. \<forall>n\<ge>N. \<exists>s'. runFrames sceneRef initialActions delta n s = Some s'
            \<and> velocity s' = 0 \<and> angularVelocity s' = 0
            \<and> \<bar>headAngularVel s'\<bar> < eps \<and> \<bar>suspensionOffset s'\<bar> < eps))"
proof -
  obtain N1 where N1: "\<forall>n\<ge>N1. \<forall>s'. runFrames sceneRef initialActions delta n s = Some s'
      \<longrightarrow> angularVelocity s' = 0"
    using turn_eventually_zero [OF assms(1,2)] by blast
  obtain N2 where N2: "\<forall>n\<ge>N2. \<forall>s'. runFrames sceneRef initialActions delta n s = Some s'
      \<longrightarrow> \<bar>headAngularVel s'\<bar> < eps"
    using head_eventually_small [OF assms] by blast
  have A: "\<exists>s'. runFrames sceneRef initialActions delta n s = Some s'
            \<and> angularVelocity s' = 0 \<and> \<bar>headAngularVel s'\<bar> < eps" if "max N1 N2 \<le> n" for n
  proof -
    obtain s' where r: "runFrames sceneRef initialActions delta n s = Some s'"
      using runFrames_total by blast
    have n: "N1 \<le> n" "N2 \<le> n" using that by simp_all
    have w: "angularVelocity s' = 0" using N1 n(1) r by blast
    have h: "\<bar>headAngularVel s'\<bar> < eps" using N2 n(2) r by blast
    show ?thesis using r w h by blast
  qed
  have B: "\<exists>N. \<forall>n\<ge>N. \<exists>s'. runFrames sceneRef initialActions delta n s = Some s'
            \<and> velocity s' = 0 \<and> angularVelocity s' = 0
            \<and> \<bar>headAngularVel s'\<bar> < eps \<and> \<bar>suspensionOffset s'\<bar> < eps"
    if h: "delta \<le> 1 / 150
        \<or> (\<exists>m s1. runFrames sceneRef initialActions delta m s = Some s1 \<and> \<bar>velocity s1\<bar> \<le> 0.01)"
  proof -
    obtain m s1 where w: "runFrames sceneRef initialActions delta m s = Some s1"
        "\<bar>velocity s1\<bar> \<le> 0.01"
      using h window_reached [OF assms(1), of sceneRef s] by blast
    obtain N3 where N3: "\<forall>n\<ge>N3. \<forall>s'. runFrames sceneRef initialActions delta n s = Some s'
        \<longrightarrow> velocity s' = 0 \<and> \<bar>suspensionOffset s'\<bar> < eps"
      using settle_from_window [OF assms w] by blast
    have "\<exists>s'. runFrames sceneRef initialActions delta n s = Some s'
            \<and> velocity s' = 0 \<and> angularVelocity s' = 0
            \<and> \<bar>headAngularVel s'\<bar> < eps \<and> \<bar>suspensionOffset s'\<bar> < eps"
      if "max (max N1 N2) N3 \<le> n" for n
    proof -
      obtain s' where r: "runFrames sceneRef initialActions delta n s = Some s'"
        using runFrames_total by blast
      have n: "N1 \<le> n" "N2 \<le> n" "N3 \<le> n" using that by simp_all
      have w: "angularVelocity s' = 0" using N1 n(1) r by blast
      have h: "\<bar>headAngularVel s'\<bar> < eps" using N2 n(2) r by blast
      have "velocity s' = 0 \<and> \<bar>suspensionOffset s'\<bar> < eps" using N3 n(3) r by blast
      then show ?thesis using r w h by blast
    qed
    then show ?thesis by blast
  qed
  show ?thesis using A B by blast
qed

theorem idle_settles_witness:
  "(0::real) < 1 / 200 \<and> (1 / 200 :: real) \<le> 0.1 \<and> (0::real) < 1 / 1000
   \<and> (1 / 200 :: real) \<le> 1 / 150
   \<and> (\<exists>N. \<forall>n\<ge>N. \<exists>s'. runFrames (Some warehouse) initialActions (1 / 200) n
        \<lparr>pos_x = 0, pos_z = 0, rotation = 0, velocity = 11 / 5, angularVelocity = 2,
          headRotY = 0, headAngularVel = 5 / 2, wheelRotation = 0, bodyTilt = 0, bodyLean = 0,
          suspensionOffset = 1 / 100, suspensionVelocity = 1 / 50\<rparr> = Some s'
        \<and> velocity s' = 0 \<and> angularVelocity s' = 0
        \<and> \<bar>headAngularVel s'\<bar> < 1 / 1000 \<and> \<bar>suspensionOffset s'\<bar> < 1 / 1000)
   \<and> (0::real) < 1 / 10 \<and> (1 / 10 :: real) \<le> 0.1
   \<and> runFrames (Some warehouse) initialActions (1 / 10) 0
        \<lparr>pos_x = 0, pos_z = 0, rotation = 0, velocity = 1 / 200, angularVelocity = 2,
          headRotY = 0, headAngularVel = 5 / 2, wheelRotation = 0, bodyTilt = 0, bodyLean = 0,
          suspensionOffset = 1 / 100, suspensionVelocity = 1 / 50\<rparr>
      = Some \<lparr>pos_x = 0, pos_z = 0, rotation = 0, velocity = 1 / 200, angularVelocity = 2,
          headRotY = 0, headAngularVel = 5 / 2, wheelRotation = 0, bodyTilt = 0, bodyLean = 0,
          suspensionOffset = 1 / 100, suspensionVelocity = 1 / 50\<rparr>
   \<and> (\<exists>N. \<forall>n\<ge>N. \<exists>s'. runFrames (Some warehouse) initialActions (1 / 10) n
        \<lparr>pos_x = 0, pos_z = 0, rotation = 0, velocity = 1 / 200, angularVelocity = 2,
          headRotY = 0, headAngularVel = 5 / 2, wheelRotation = 0, bodyTilt = 0, bodyLean = 0,
          suspensionOffset = 1 / 100, suspensionVelocity = 1 / 50\<rparr> = Some s'
        \<and> velocity s' = 0 \<and> angularVelocity s' = 0
        \<and> \<bar>headAngularVel s'\<bar> < 1 / 1000 \<and> \<bar>suspensionOffset s'\<bar> < 1 / 1000)"
proof -
  let ?s = "\<lambda>v. \<lparr>pos_x = 0, pos_z = 0, rotation = 0, velocity = v, angularVelocity = 2,
          headRotY = 0, headAngularVel = 5 / 2, wheelRotation = 0, bodyTilt = 0, bodyLean = 0,
          suspensionOffset = 1 / 100, suspensionVelocity = (1 / 50 :: real)\<rparr>"
  have w: "\<exists>m s1. runFrames (Some warehouse) initialActions (1 / 10) m (?s (1 / 200)) = Some s1
      \<and> \<bar>velocity s1\<bar> \<le> 0.01"
    by (rule exI [of _ 0]) simp
  show ?thesis
    using idle_settles [of "1 / 200" "1 / 1000" "Some warehouse" "?s (11 / 5)"]
      idle_settles [of "1 / 10" "1 / 1000" "Some warehouse" "?s (1 / 200)"] w
    by simp
qed

section \<open>Resolving a resolved point\<close>

































section \<open>The dust particles are capped\<close>

lemma dustLoop_length: "length (dustLoop delta i ps) \<le> length ps"
proof (induction i arbitrary: ps)
  case 0
  show ?case by simp
next
  case (Suc i)
  have "length (dustLoop delta i (take i ps @ drop (Suc i) ps)) \<le> length (take i ps @ drop (Suc i) ps)"
    by (rule Suc.IH)
  moreover have "length (take i ps @ drop (Suc i) ps) \<le> length ps" by simp
  moreover have "length (dustLoop delta i (ps[i := ageParticle delta (ps ! i)])) \<le> length ps"
    using Suc.IH [of "ps[i := ageParticle delta (ps ! i)]"] by simp
  ultimately show ?case by (simp add: Let_def)
qed

lemma spawnDustParticle_length:
  "length (dustParticles st) \<le> 50 \<Longrightarrow>
    length (dustParticles (spawnDustParticle rnd x y z vX vZ st)) \<le> 50"
  by (simp add: spawnDustParticle_def Let_def)

lemma spawnDustParticle_grows:
  "length (dustParticles (spawnDustParticle rnd x y z vX vZ st))
    = (if length (dustParticles st) \<ge> 50 then length (dustParticles st)
       else Suc (length (dustParticles st)))"
  by (simp add: spawnDustParticle_def Let_def)

lemma updateDustParticles_length:
  assumes "length (dustParticles st) \<le> 50"
  shows "length (dustParticles (updateDustParticles rnd delta state st)) \<le> 50"
proof -
  have s: "length (dustParticles (spawnDustParticle rnd x y z vX vZ (st\<lparr>draws := k\<rparr>))) \<le> 50"
    for x y z vX vZ k
    using assms by (intro spawnDustParticle_length) simp
  show ?thesis
    unfolding updateDustParticles_def Let_def
    using assms s dustLoop_length
    by (auto intro: order_trans [OF dustLoop_length])
qed

lemma runDust_length:
  "length (dustParticles st) \<le> 50 \<Longrightarrow> length (dustParticles (runDust rnd frames st)) \<le> 50"
proof (induction frames arbitrary: st)
  case Nil
  then show ?case by simp
next
  case (Cons f frames)
  obtain delta state where f: "f = (delta, state)" by (cases f)
  show ?case unfolding f using Cons.IH updateDustParticles_length [OF Cons.prems] by simp
qed

text \<open>
  C7. Over every run of frames from the empty particle list of scene construction,
  whatever the frame times, the robot's states and the values \<open>Math.random()\<close> returns,
  the list never holds more than 50 particles. One \<open>updateDustParticles\<close> keeps any list
  of at most 50 particles at most 50 long; \<open>spawnDustParticle\<close> changes nothing at all when
  the list holds 50 or more; and the particle loop never lengthens the list.
\<close>

theorem dust_capped:
  "length (dustParticles (runDust rnd frames initialDust)) \<le> 50
   \<and> (length (dustParticles st) \<le> 50 \<longrightarrow>
        length (dustParticles (updateDustParticles rnd delta state st)) \<le> 50)
   \<and> (length (dustParticles st) \<ge> 50 \<longrightarrow> spawnDustParticle rnd x y z vX vZ st = st)
   \<and> length (dustLoop delta i ps) \<le> length ps"
  using runDust_length [of initialDust rnd frames]
    updateDustParticles_length [of st rnd delta state] dustLoop_length [of delta i ps]
  by (simp add: initialDust_def spawnDustParticle_def)


theorem dust_capped_witness:
  "length (dustParticles \<lparr>dustParticles = replicate 50
        \<lparr>mesh_position = (0, 0.1, 0), mesh_radius = 0.03, mesh_opacity = Some 0.6,
        mesh_scale = Some 1, p_velocity = (0, 0.2, 0), life = 0, maxLife = 0.8\<rparr>, draws = 0\<rparr>) \<le> 50
   \<and> length (dustParticles \<lparr>dustParticles = replicate 50
        \<lparr>mesh_position = (0, 0.1, 0), mesh_radius = 0.03, mesh_opacity = Some 0.6,
        mesh_scale = Some 1, p_velocity = (0, 0.2, 0), life = 0, maxLife = 0.8\<rparr>, draws = 0\<rparr>) \<ge> 50
   \<and> length (dustParticles (updateDustParticles (\<lambda>k. 0) (1 / 60) \<lparr>pos_x = 0, pos_z = 0, rotation = 0, velocity = 2.2, angularVelocity = 0,
        headRotY = 0, headAngularVel = 0, wheelRotation = 0, bodyTilt = 0, bodyLean = 0,
        suspensionOffset = 0, suspensionVelocity = 0\<rparr>
        \<lparr>dustParticles = replicate 50
        \<lparr>mesh_position = (0, 0.1, 0), mesh_radius = 0.03, mesh_opacity = Some 0.6,
        mesh_scale = Some 1, p_velocity = (0, 0.2, 0), life = 0, maxLife = 0.8\<rparr>, draws = 0\<rparr>)) \<le> 50
   \<and> spawnDustParticle (\<lambda>k. 0) 0 (1 / 10) 0 0 0 \<lparr>dustParticles = replicate 50
        \<lparr>mesh_position = (0, 0.1, 0), mesh_radius = 0.03, mesh_opacity = Some 0.6,
        mesh_scale = Some 1, p_velocity = (0, 0.2, 0), life = 0, maxLife = 0.8\<rparr>, draws = 0\<rparr>
      = \<lparr>dustParticles = replicate 50
        \<lparr>mesh_position = (0, 0.1, 0), mesh_radius = 0.03, mesh_opacity = Some 0.6,
        mesh_scale = Some 1, p_velocity = (0, 0.2, 0), life = 0, maxLife = 0.8\<rparr>, draws = 0\<rparr>
   \<and> length (dustParticles (runDust (\<lambda>k. 0) [(1 / 60, \<lparr>pos_x = 0, pos_z = 0, rotation = 0, velocity = 2.2, angularVelocity = 0,
        headRotY = 0, headAngularVel = 0, wheelRotation = 0, bodyTilt = 0, bodyLean = 0,
        suspensionOffset = 0, suspensionVelocity = 0\<rparr>)] initialDust)) \<le> 50"
  using dust_capped [of "\<lambda>k. 0" "[(1 / 60, \<lparr>pos_x = 0, pos_z = 0, rotation = 0, velocity = 2.2, angularVelocity = 0,
        headRotY = 0, headAngularVel = 0, wheelRotation = 0, bodyTilt = 0, bodyLean = 0,
        suspensionOffset = 0, suspensionVelocity = 0\<rparr>)]"
      "\<lparr>dustParticles = replicate 50
        \<lparr>mesh_position = (0, 0.1, 0), mesh_radius = 0.03, mesh_opacity = Some 0.6,
        mesh_scale = Some 1, p_velocity = (0, 0.2, 0), life = 0, maxLife = 0.8\<rparr>, draws = 0\<rparr>" "1 / 60" "\<lparr>pos_x = 0, pos_z = 0, rotation = 0, velocity = 2.2, angularVelocity = 0,
        headRotY = 0, headAngularVel = 0, wheelRotation = 0, bodyTilt = 0, bodyLean = 0,
        suspensionOffset = 0, suspensionVelocity = 0\<rparr>" 0 "1 / 10" 0 0 0]
  by simp

section \<open>Capture without a display surface\<close>

lemma renderRobotPOV_skip:
  assumes "povCtx st = None \<or> povImageData st = None"
  shows "renderRobotPOV B pose state st = st"
proof (cases "povCtx st")
  case None
  then show ?thesis by (simp add: renderRobotPOV_def)
next
  case (Some ctx)
  then have "povImageData st = None" using assms by simp
  then show ?thesis by (simp add: renderRobotPOV_def Some)
qed

lemma renderSecurityCamera_skip:
  assumes "secCamCtx st = None \<or> secCamImageData st = None"
  shows "renderSecurityCamera B pose st = st"
proof (cases "secCamCtx st")
  case None
  then show ?thesis by (simp add: renderSecurityCamera_def)
next
  case (Some ctx)
  then have "secCamImageData st = None" using assms by simp
  then show ?thesis by (simp add: renderSecurityCamera_def Some)
qed

lemma captureBlock_due:
  "currentTime - lastPovRenderTime st > POV_RENDER_INTERVAL \<Longrightarrow>
    captureBlock B pose state currentTime st
     = (renderSecurityCamera B pose (renderRobotPOV B pose state st))
         \<lparr>lastPovRenderTime := currentTime\<rparr>"
  by (simp add: captureBlock_def)

text \<open>
  C9. For each of the two cameras, when its 2D context or its image buffer is missing,
  its capture routine returns the state it was given: nothing is rendered, read back or
  post-processed, and no error value exists for it to return. When both cameras lack
  their surface and a capture is due, the capture block of \<open>animate\<close> changes nothing but
  \<open>lastPovRenderTime\<close>, and once another interval has passed it calls both routines again.
\<close>

theorem capture_skipped_without_surface:
  "((povCtx st = None \<or> povImageData st = None) \<longrightarrow> renderRobotPOV B pose state st = st)
   \<and> ((secCamCtx st = None \<or> secCamImageData st = None) \<longrightarrow>
        renderSecurityCamera B pose st = st)
   \<and> ((povCtx st = None \<or> povImageData st = None)
        \<and> (secCamCtx st = None \<or> secCamImageData st = None)
        \<and> currentTime - lastPovRenderTime st > POV_RENDER_INTERVAL
        \<and> nextTime - currentTime > POV_RENDER_INTERVAL \<longrightarrow>
        captureBlock B pose state currentTime st = st\<lparr>lastPovRenderTime := currentTime\<rparr>
        \<and> captureBlock B pose' state' nextTime (captureBlock B pose state currentTime st)
          = (renderSecurityCamera B pose' (renderRobotPOV B pose' state'
               (st\<lparr>lastPovRenderTime := currentTime\<rparr>)))\<lparr>lastPovRenderTime := nextTime\<rparr>)"
proof (intro conjI impI)
  assume "povCtx st = None \<or> povImageData st = None"
  then show "renderRobotPOV B pose state st = st" by (rule renderRobotPOV_skip)
next
  assume "secCamCtx st = None \<or> secCamImageData st = None"
  then show "renderSecurityCamera B pose st = st" by (rule renderSecurityCamera_skip)
next
  assume a: "(povCtx st = None \<or> povImageData st = None)
        \<and> (secCamCtx st = None \<or> secCamImageData st = None)
        \<and> currentTime - lastPovRenderTime st > POV_RENDER_INTERVAL
        \<and> nextTime - currentTime > POV_RENDER_INTERVAL"
  then show first: "captureBlock B pose state currentTime st = st\<lparr>lastPovRenderTime := currentTime\<rparr>"
    by (simp add: captureBlock_due renderRobotPOV_skip renderSecurityCamera_skip)
  have "nextTime - lastPovRenderTime (st\<lparr>lastPovRenderTime := currentTime\<rparr>) > POV_RENDER_INTERVAL"
    using a by simp
  then show "captureBlock B pose' state' nextTime (captureBlock B pose state currentTime st)
          = (renderSecurityCamera B pose' (renderRobotPOV B pose' state'
               (st\<lparr>lastPovRenderTime := currentTime\<rparr>)))\<lparr>lastPovRenderTime := nextTime\<rparr>"
    unfolding first by (rule captureBlock_due)
qed


theorem capture_skipped_without_surface_witness:
  "povCtx \<lparr>povCtx = None, povImageData = None, povBuffer = (\<lambda>i. 0), robotCameraRT = (\<lambda>i. 0),
        robotCamera = \<lparr>cam_position = (0, 0, 0), cam_lookAt = (0, 0, 1)\<rparr>,
        secCamCtx = None, secCamImageData = None, secCamBuffer = (\<lambda>i. 0),
        securityCameraRT = (\<lambda>i. 0),
        securityCamera = \<lparr>cam_position = (0, 0, 0), cam_lookAt = (0, 0, 1)\<rparr>,
        secCamMount_position = (7, 1.5, 4), secCamMount_rotation_y = 0, robot_visible = True,
        lastPovRenderTime = 0\<rparr> = None
   \<and> secCamCtx \<lparr>povCtx = None, povImageData = None, povBuffer = (\<lambda>i. 0), robotCameraRT = (\<lambda>i. 0),
        robotCamera = \<lparr>cam_position = (0, 0, 0), cam_lookAt = (0, 0, 1)\<rparr>,
        secCamCtx = None, secCamImageData = None, secCamBuffer = (\<lambda>i. 0),
        securityCameraRT = (\<lambda>i. 0),
        securityCamera = \<lparr>cam_position = (0, 0, 0), cam_lookAt = (0, 0, 1)\<rparr>,
        secCamMount_position = (7, 1.5, 4), secCamMount_rotation_y = 0, robot_visible = True,
        lastPovRenderTime = 0\<rparr> = None
   \<and> 60 - lastPovRenderTime \<lparr>povCtx = None, povImageData = None, povBuffer = (\<lambda>i. 0), robotCameraRT = (\<lambda>i. 0),
        robotCamera = \<lparr>cam_position = (0, 0, 0), cam_lookAt = (0, 0, 1)\<rparr>,
        secCamCtx = None, secCamImageData = None, secCamBuffer = (\<lambda>i. 0),
        securityCameraRT = (\<lambda>i. 0),
        securityCamera = \<lparr>cam_position = (0, 0, 0), cam_lookAt = (0, 0, 1)\<rparr>,
        secCamMount_position = (7, 1.5, 4), secCamMount_rotation_y = 0, robot_visible = True,
        lastPovRenderTime = 0\<rparr> > POV_RENDER_INTERVAL
   \<and> (120::real) - 60 > POV_RENDER_INTERVAL
   \<and> renderRobotPOV \<lparr>render = (\<lambda>cam visible i. 0), fillRect = (\<lambda>ctx x y w h. pixels ctx)\<rparr>
        \<lparr>robot_position = (0, 0, 0), headWorldPos_y = 1.9\<rparr>
        \<lparr>pos_x = 0, pos_z = 0, rotation = 0, velocity = 0, angularVelocity = 0,
        headRotY = 0, headAngularVel = 0, wheelRotation = 0, bodyTilt = 0, bodyLean = 0,
        suspensionOffset = 0, suspensionVelocity = 0\<rparr>
        \<lparr>povCtx = None, povImageData = None, povBuffer = (\<lambda>i. 0), robotCameraRT = (\<lambda>i. 0),
        robotCamera = \<lparr>cam_position = (0, 0, 0), cam_lookAt = (0, 0, 1)\<rparr>,
        secCamCtx = None, secCamImageData = None, secCamBuffer = (\<lambda>i. 0),
        securityCameraRT = (\<lambda>i. 0),
        securityCamera = \<lparr>cam_position = (0, 0, 0), cam_lookAt = (0, 0, 1)\<rparr>,
        secCamMount_position = (7, 1.5, 4), secCamMount_rotation_y = 0, robot_visible = True,
        lastPovRenderTime = 0\<rparr>
      = \<lparr>povCtx = None, povImageData = None, povBuffer = (\<lambda>i. 0), robotCameraRT = (\<lambda>i. 0),
        robotCamera = \<lparr>cam_position = (0, 0, 0), cam_lookAt = (0, 0, 1)\<rparr>,
        secCamCtx = None, secCamImageData = None, secCamBuffer = (\<lambda>i. 0),
        securityCameraRT = (\<lambda>i. 0),
        securityCamera = \<lparr>cam_position = (0, 0, 0), cam_lookAt = (0, 0, 1)\<rparr>,
        secCamMount_position = (7, 1.5, 4), secCamMount_rotation_y = 0, robot_visible = True,
        lastPovRenderTime = 0\<rparr>
   \<and> renderSecurityCamera \<lparr>render = (\<lambda>cam visible i. 0), fillRect = (\<lambda>ctx x y w h. pixels ctx)\<rparr>
        \<lparr>robot_position = (0, 0, 0), headWorldPos_y = 1.9\<rparr>
        \<lparr>povCtx = None, povImageData = None, povBuffer = (\<lambda>i. 0), robotCameraRT = (\<lambda>i. 0),
        robotCamera = \<lparr>cam_position = (0, 0, 0), cam_lookAt = (0, 0, 1)\<rparr>,
        secCamCtx = None, secCamImageData = None, secCamBuffer = (\<lambda>i. 0),
        securityCameraRT = (\<lambda>i. 0),
        securityCamera = \<lparr>cam_position = (0, 0, 0), cam_lookAt = (0, 0, 1)\<rparr>,
        secCamMount_position = (7, 1.5, 4), secCamMount_rotation_y = 0, robot_visible = True,
        lastPovRenderTime = 0\<rparr>
      = \<lparr>povCtx = None, povImageData = None, povBuffer = (\<lambda>i. 0), robotCameraRT = (\<lambda>i. 0),
        robotCamera = \<lparr>cam_position = (0, 0, 0), cam_lookAt = (0, 0, 1)\<rparr>,
        secCamCtx = None, secCamImageData = None, secCamBuffer = (\<lambda>i. 0),
        securityCameraRT = (\<lambda>i. 0),
        securityCamera = \<lparr>cam_position = (0, 0, 0), cam_lookAt = (0, 0, 1)\<rparr>,
        secCamMount_position = (7, 1.5, 4), secCamMount_rotation_y = 0, robot_visible = True,
        lastPovRenderTime = 0\<rparr>
   \<and> captureBlock \<lparr>render = (\<lambda>cam visible i. 0), fillRect = (\<lambda>ctx x y w h. pixels ctx)\<rparr>
        \<lparr>robot_position = (0, 0, 0), headWorldPos_y = 1.9\<rparr>
        \<lparr>pos_x = 0, pos_z = 0, rotation = 0, velocity = 0, angularVelocity = 0,
        headRotY = 0, headAngularVel = 0, wheelRotation = 0, bodyTilt = 0, bodyLean = 0,
        suspensionOffset = 0, suspensionVelocity = 0\<rparr> 60
        \<lparr>povCtx = None, povImageData = None, povBuffer = (\<lambda>i. 0), robotCameraRT = (\<lambda>i. 0),
        robotCamera = \<lparr>cam_position = (0, 0, 0), cam_lookAt = (0, 0, 1)\<rparr>,
        secCamCtx = None, secCamImageData = None, secCamBuffer = (\<lambda>i. 0),
        securityCameraRT = (\<lambda>i. 0),
        securityCamera = \<lparr>cam_position = (0, 0, 0), cam_lookAt = (0, 0, 1)\<rparr>,
        secCamMount_position = (7, 1.5, 4), secCamMount_rotation_y = 0, robot_visible = True,
        lastPovRenderTime = 0\<rparr>
      = \<lparr>povCtx = None, povImageData = None, povBuffer = (\<lambda>i. 0), robotCameraRT = (\<lambda>i. 0),
        robotCamera = \<lparr>cam_position = (0, 0, 0), cam_lookAt = (0, 0, 1)\<rparr>,
        secCamCtx = None, secCamImageData = None, secCamBuffer = (\<lambda>i. 0),
        securityCameraRT = (\<lambda>i. 0),
        securityCamera = \<lparr>cam_position = (0, 0, 0), cam_lookAt = (0, 0, 1)\<rparr>,
        secCamMount_position = (7, 1.5, 4), secCamMount_rotation_y = 0, robot_visible = True,
        lastPovRenderTime = 0\<rparr>\<lparr>lastPovRenderTime := 60\<rparr>"
  using capture_skipped_without_surface
    [of "\<lparr>povCtx = None, povImageData = None, povBuffer = (\<lambda>i. 0), robotCameraRT = (\<lambda>i. 0),
        robotCamera = \<lparr>cam_position = (0, 0, 0), cam_lookAt = (0, 0, 1)\<rparr>,
        secCamCtx = None, secCamImageData = None, secCamBuffer = (\<lambda>i. 0),
        securityCameraRT = (\<lambda>i. 0),
        securityCamera = \<lparr>cam_position = (0, 0, 0), cam_lookAt = (0, 0, 1)\<rparr>,
        secCamMount_position = (7, 1.5, 4), secCamMount_rotation_y = 0, robot_visible = True,
        lastPovRenderTime = 0\<rparr>"
      "\<lparr>render = (\<lambda>cam visible i. 0), fillRect = (\<lambda>ctx x y w h. pixels ctx)\<rparr>"
      "\<lparr>robot_position = (0, 0, 0), headWorldPos_y = 1.9\<rparr>"
      "\<lparr>pos_x = 0, pos_z = 0, rotation = 0, velocity = 0, angularVelocity = 0,
        headRotY = 0, headAngularVel = 0, wheelRotation = 0, bodyTilt = 0, bodyLean = 0,
        suspensionOffset = 0, suspensionVelocity = 0\<rparr>" 60 120]
  by (simp add: POV_RENDER_INTERVAL_def)

section \<open>The face after an override text\<close>

lemmas face_eval = drawFaceLocal_def expressionCalls_def textCalls_def wrapLines_def
  newFaceCanvas_def defaultDrawingState_def faceWidth_def faceHeight_def opaque_def Let_def

text \<open>
  C8 fails on the code. \<open>drawFaceLocal\<close> assigns the fill, stroke, shadow and line
  attributes anew at every call, but \<open>textAlign\<close> and \<open>textBaseline\<close> only in the branch that
  draws an override text, and the context keeps them. With the same expression
  (\<open>sleepy\<close>), colour, time and no override text, the three \<open>z\<close> are painted with alignment
  \<open>start\<close> and baseline \<open>alphabetic\<close> on a fresh context, and with \<open>center\<close> and \<open>middle\<close>
  once an override text (here \<open>Hello!\<close>) has been drawn before; the rasters differ.
\<close>

theorem drawFaceLocal_text_alignment_leak:
  "textOps (raster (drawFaceLocal (\<lambda>s. 16 * real (length s)) ''sleepy'' ''#00ffff'' None 0
      newFaceCanvas))
   = [(''z'', 192, 56, ''start'', ''alphabetic''),
      (''z'', 1024 / 5, 224 / 5, ''start'', ''alphabetic''),
      (''z'', 5376 / 25, 176 / 5, ''start'', ''alphabetic'')]
   \<and> textOps (raster (drawFaceLocal (\<lambda>s. 16 * real (length s)) ''sleepy'' ''#00ffff'' None 0
      (drawFaceLocal (\<lambda>s. 16 * real (length s)) ''sleepy'' ''#00ffff'' (Some ''Hello!'') 0
         newFaceCanvas)))
   = [(''z'', 192, 56, ''center'', ''middle''),
      (''z'', 1024 / 5, 224 / 5, ''center'', ''middle''),
      (''z'', 5376 / 25, 176 / 5, ''center'', ''middle'')]
   \<and> raster (drawFaceLocal (\<lambda>s. 16 * real (length s)) ''sleepy'' ''#00ffff'' None 0
      newFaceCanvas)
     \<noteq> raster (drawFaceLocal (\<lambda>s. 16 * real (length s)) ''sleepy'' ''#00ffff'' None 0
      (drawFaceLocal (\<lambda>s. 16 * real (length s)) ''sleepy'' ''#00ffff'' (Some ''Hello!'') 0
         newFaceCanvas))"
proof -
  let ?m = "\<lambda>s::string. 16 * real (length s)"
  let ?A = "drawFaceLocal ?m ''sleepy'' ''#00ffff'' None 0 newFaceCanvas"
  let ?B = "drawFaceLocal ?m ''sleepy'' ''#00ffff'' None 0
      (drawFaceLocal ?m ''sleepy'' ''#00ffff'' (Some ''Hello!'') 0 newFaceCanvas)"
  have a: "textOps (raster ?A)
   = [(''z'', 192, 56, ''start'', ''alphabetic''),
      (''z'', 1024 / 5, 224 / 5, ''start'', ''alphabetic''),
      (''z'', 5376 / 25, 176 / 5, ''start'', ''alphabetic'')]"
    by (simp add: face_eval)
  have b: "textOps (raster ?B)
   = [(''z'', 192, 56, ''center'', ''middle''),
      (''z'', 1024 / 5, 224 / 5, ''center'', ''middle''),
      (''z'', 5376 / 25, 176 / 5, ''center'', ''middle'')]"
    by (simp add: face_eval enumerate_eq_zip)
  have "textOps (raster ?A) \<noteq> textOps (raster ?B)"
    unfolding a b by simp
  then have "raster ?A \<noteq> raster ?B" by auto
  then show ?thesis using a b by blast
qed

end
